theory Spec2Isabelle
  imports Complex_Main "HOL-Library.Sublist"
begin

section \<open>Errors and numbers\<close>

text \<open>
  The exceptions the modelled code can raise. \<open>ParameterError\<close> and \<open>CalculationError\<close>
  are the package's own (\<open>pygaps.utilities.exceptions\<close>) and carry the arguments they were
  constructed with; the others are Python's and numpy's built-in ones.
\<close>

datatype py_error =
    ParameterError "string list"
  | CalculationError "string list"
  | KeyError string
  | IndexError
  | ValueError
  | ZeroDivisionError
  | OverflowError
  | UnboundLocalError string

text \<open>A raised exception leaves the function at once: the rest of the body is skipped.\<close>

definition bindE :: "py_error + 'a \<Rightarrow> ('a \<Rightarrow> py_error + 'b) \<Rightarrow> py_error + 'b" where
  "bindE m f = (case m of Inl e \<Rightarrow> Inl e | Inr x \<Rightarrow> f x)"

text \<open>
  Python floats are read as reals: rounding, overflow and the sign of zero are outside the
  model. What is kept is the difference between the two kinds of arithmetic the module
  uses. A division of two Python floats raises \<open>ZeroDivisionError\<close> when the divisor is zero.
\<close>

definition py_div :: "real \<Rightarrow> real \<Rightarrow> py_error + real" where
  "py_div a b = (if b = 0 then Inl ZeroDivisionError else Inr (a / b))"

text \<open>
  numpy arithmetic never raises on a zero divisor or a zero logarithm: it yields an
  infinity or a NaN (and a warning). A numpy value is a finite number, one of the two
  infinities, or NaN.
\<close>

datatype npfloat = Fin real | PInf | NInf | NaN

fun np_neg :: "npfloat \<Rightarrow> npfloat" where
  "np_neg (Fin x) = Fin (- x)"
| "np_neg PInf = NInf"
| "np_neg NInf = PInf"
| "np_neg NaN = NaN"

fun np_add :: "npfloat \<Rightarrow> npfloat \<Rightarrow> npfloat" where
  "np_add NaN _ = NaN"
| "np_add _ NaN = NaN"
| "np_add (Fin a) (Fin b) = Fin (a + b)"
| "np_add (Fin _) PInf = PInf"
| "np_add (Fin _) NInf = NInf"
| "np_add PInf (Fin _) = PInf"
| "np_add NInf (Fin _) = NInf"
| "np_add PInf PInf = PInf"
| "np_add NInf NInf = NInf"
| "np_add PInf NInf = NaN"
| "np_add NInf PInf = NaN"

definition np_sub :: "npfloat \<Rightarrow> npfloat \<Rightarrow> npfloat" where
  "np_sub a b = np_add a (np_neg b)"

text \<open>The sign of an infinity scaled by a finite number; zero times infinity is NaN.\<close>

definition np_scale_inf :: "real \<Rightarrow> npfloat \<Rightarrow> npfloat" where
  "np_scale_inf a i = (if a = 0 then NaN else if 0 < a then i else np_neg i)"

fun np_mul :: "npfloat \<Rightarrow> npfloat \<Rightarrow> npfloat" where
  "np_mul NaN _ = NaN"
| "np_mul _ NaN = NaN"
| "np_mul (Fin a) (Fin b) = Fin (a * b)"
| "np_mul (Fin a) PInf = np_scale_inf a PInf"
| "np_mul (Fin a) NInf = np_scale_inf a NInf"
| "np_mul PInf (Fin b) = np_scale_inf b PInf"
| "np_mul NInf (Fin b) = np_scale_inf b NInf"
| "np_mul PInf PInf = PInf"
| "np_mul NInf NInf = PInf"
| "np_mul PInf NInf = NInf"
| "np_mul NInf PInf = NInf"

text \<open>
  Division: a finite non-zero number over zero is an infinity of its sign, zero over zero
  is NaN, a finite number over an infinity is zero, an infinity over an infinity is NaN.
\<close>

fun np_div :: "npfloat \<Rightarrow> npfloat \<Rightarrow> npfloat" where
  "np_div NaN _ = NaN"
| "np_div _ NaN = NaN"
| "np_div (Fin a) (Fin b) =
     (if b \<noteq> 0 then Fin (a / b)
      else if a = 0 then NaN else if 0 < a then PInf else NInf)"
| "np_div (Fin _) PInf = Fin 0"
| "np_div (Fin _) NInf = Fin 0"
| "np_div PInf (Fin b) = (if 0 \<le> b then PInf else NInf)"
| "np_div NInf (Fin b) = (if 0 \<le> b then NInf else PInf)"
| "np_div PInf PInf = NaN"
| "np_div NInf NInf = NaN"
| "np_div PInf NInf = NaN"
| "np_div NInf PInf = NaN"

text \<open>\<open>numpy.log\<close>: minus infinity at zero, NaN below it. \<open>numpy.exp\<close>.\<close>

fun np_log :: "npfloat \<Rightarrow> npfloat" where
  "np_log (Fin x) = (if 0 < x then Fin (ln x) else if x = 0 then NInf else NaN)"
| "np_log PInf = PInf"
| "np_log NInf = NaN"
| "np_log NaN = NaN"

fun np_exp :: "npfloat \<Rightarrow> npfloat" where
  "np_exp (Fin x) = Fin (exp x)"
| "np_exp PInf = PInf"
| "np_exp NInf = Fin 0"
| "np_exp NaN = NaN"

text \<open>Comparison: every comparison with NaN is false.\<close>

fun np_less :: "npfloat \<Rightarrow> npfloat \<Rightarrow> bool" where
  "np_less NaN _ = False"
| "np_less _ NaN = False"
| "np_less (Fin a) (Fin b) = (a < b)"
| "np_less (Fin _) PInf = True"
| "np_less (Fin _) NInf = False"
| "np_less PInf _ = False"
| "np_less NInf (Fin _) = True"
| "np_less NInf PInf = True"
| "np_less NInf NInf = False"






section \<open>Property mappings and dispersion constants\<close>

text \<open>
  A property dictionary maps property names to floats; it is kept as the list of its
  items in insertion order, which is the order Python iterates a \<open>dict\<close> in.
  Subscripting with an absent key raises \<open>KeyError\<close>.
\<close>

type_synonym props = "(string \<times> real) list"

definition getitem :: "props \<Rightarrow> string \<Rightarrow> py_error + real" where
  "getitem d k = (case map_of d k of None \<Rightarrow> Inl (KeyError k) | Some v \<Rightarrow> Inr v)"

text \<open>
  The physical constants come from \<open>scipy.constants\<close>, which is not part of the
  repository: they are fields of a record the model is given.
\<close>

record constants =
  electron_mass :: real
  speed_of_light :: real
  Avogadro :: real
  gas_constant :: real

definition kirkwood_muller_dispersion_ads :: "constants \<Rightarrow> real \<Rightarrow> real \<Rightarrow> real" where
  "kirkwood_muller_dispersion_ads c p_ads m_ads =
     1.5 * electron_mass c * speed_of_light c ^ 2 * p_ads * m_ads"

text \<open>
  Python evaluates the numerator, then the two quotients of the denominator from left to
  right, then the outer division; each of the three divisions can raise.
\<close>

definition kirkwood_muller_dispersion_mat ::
  "constants \<Rightarrow> real \<Rightarrow> real \<Rightarrow> real \<Rightarrow> real \<Rightarrow> py_error + real" where
  "kirkwood_muller_dispersion_mat c p_mat m_mat p_ads m_ads =
     bindE (py_div p_ads m_ads) (\<lambda>q_ads.
     bindE (py_div p_mat m_mat) (\<lambda>q_mat.
       py_div (6 * electron_mass c * speed_of_light c ^ 2 * p_ads * p_mat) (q_ads + q_mat)))"

definition dispersion_from_dict :: "constants \<Rightarrow> props \<Rightarrow> props \<Rightarrow> py_error + real \<times> real" where
  "dispersion_from_dict c ads_dict mat_dict =
     bindE (getitem ads_dict ''polarizability'') (\<lambda>pa.
     bindE (getitem mat_dict ''polarizability'') (\<lambda>pm.
     bindE (getitem ads_dict ''magnetic_susceptibility'') (\<lambda>ma.
     bindE (getitem mat_dict ''magnetic_susceptibility'') (\<lambda>mm.
       let p_ads = pa * (1 / 10 ^ 27);
           p_mat = pm * (1 / 10 ^ 27);
           m_ads = ma * (1 / 10 ^ 27);
           m_mat = mm * (1 / 10 ^ 27)
       in bindE (kirkwood_muller_dispersion_mat c p_mat m_mat p_ads m_ads) (\<lambda>a_mat.
            Inr (kirkwood_muller_dispersion_ads c p_ads m_ads, a_mat))))))"

definition N_over_RT :: "constants \<Rightarrow> real \<Rightarrow> py_error + real" where
  "N_over_RT c temp =
     bindE (py_div (Avogadro c) (gas_constant c)) (\<lambda>q. py_div q temp)"

section \<open>Per-point pore-width solvers\<close>

text \<open>
  A potential is a function of the pore width that the source closes over the constants
  of a geometry; the solvers turn it into the objective of a pressure point. Both are
  called by the minimiser, on numpy floats, and both can raise: a call yields a numpy
  value or the exception.
\<close>

type_synonym objective = "real \<Rightarrow> py_error + npfloat"

text \<open>
  \<open>scipy.optimize.minimize_scalar\<close> is not part of the repository. It is a parameter of
  the model: given the objective and the bounds, it yields the abscissa \<open>res.x\<close> (the
  only part of its result the code reads) or raises. Which widths it evaluates the
  objective at, and so whether an exception of the objective reaches it and propagates, is
  its own business: nothing is assumed of it.
\<close>

type_synonym minimizer = "objective \<Rightarrow> real \<times> real \<Rightarrow> py_error + real"

text \<open>The objective of \<open>_solve_hk\<close> for one pressure point.\<close>

definition fun_hk :: "objective \<Rightarrow> real \<Rightarrow> objective" where
  "fun_hk hk_fun p_point l_pore =
     bindE (hk_fun l_pore) (\<lambda>u.
       let r = np_sub (np_exp u) (Fin p_point) in Inr (np_mul r r))"

text \<open>
  The loop of \<open>_solve_hk\<close>: \<open>p_w\<close> is the list the widths are appended to. An exception
  of a minimisation ends the loop and the function.
\<close>

fun solve_hk_loop ::
  "minimizer \<Rightarrow> objective \<Rightarrow> real \<Rightarrow> real list \<Rightarrow> real list \<Rightarrow> py_error + real list" where
  "solve_hk_loop ms hk_fun bound [] p_w = Inr p_w"
| "solve_hk_loop ms hk_fun bound (p_point # rest) p_w =
     bindE (ms (fun_hk hk_fun p_point) (bound, 50)) (\<lambda>x.
       solve_hk_loop ms hk_fun bound rest (p_w @ [x]))"

definition solve_hk :: "minimizer \<Rightarrow> real list \<Rightarrow> objective \<Rightarrow> real \<Rightarrow> py_error + real list" where
  "solve_hk ms pressure hk_fun bound = solve_hk_loop ms hk_fun bound pressure []"

text \<open>
  \<open>coverage = loading / loading[-1]\<close>: indexing an empty array raises \<open>IndexError\<close>; the
  division is numpy's.
\<close>

definition coverage_of :: "real list \<Rightarrow> py_error + npfloat list" where
  "coverage_of loading =
     (if loading = [] then Inl IndexError
      else Inr (map (\<lambda>n. np_div (Fin n) (Fin (last loading))) loading))"

definition sf_corr :: "npfloat \<Rightarrow> npfloat" where
  "sf_corr c_point =
     np_add (Fin 1) (np_mul (np_div (Fin 1) c_point) (np_log (np_sub (Fin 1) c_point)))"

definition fun_cy :: "objective \<Rightarrow> real \<Rightarrow> npfloat \<Rightarrow> objective" where
  "fun_cy hk_fun p_point c_point l_pore =
     bindE (hk_fun l_pore) (\<lambda>u.
       let r = np_sub (np_exp (np_sub u (sf_corr c_point))) (Fin p_point)
       in Inr (np_mul r r))"

text \<open>The loop of \<open>_solve_hk_cy\<close> runs over \<open>zip(pressure, coverage)\<close>: it stops with the shorter one.\<close>

fun solve_hk_cy_loop ::
  "minimizer \<Rightarrow> objective \<Rightarrow> real \<Rightarrow> real list \<Rightarrow> npfloat list \<Rightarrow> real list \<Rightarrow>
   py_error + real list" where
  "solve_hk_cy_loop ms hk_fun bound (p_point # ps) (c_point # cs) p_w =
     bindE (ms (fun_cy hk_fun p_point c_point) (bound, 50)) (\<lambda>x.
       solve_hk_cy_loop ms hk_fun bound ps cs (p_w @ [x]))"
| "solve_hk_cy_loop ms hk_fun bound _ _ p_w = Inr p_w"

definition solve_hk_cy ::
  "minimizer \<Rightarrow> real list \<Rightarrow> real list \<Rightarrow> objective \<Rightarrow> real \<Rightarrow> py_error + real list" where
  "solve_hk_cy ms pressure loading hk_fun bound =
     bindE (coverage_of loading) (\<lambda>coverage.
       solve_hk_cy_loop ms hk_fun bound pressure coverage [])"

section \<open>The Horvath-Kawazoe kernels\<close>

text \<open>
  Modelled from the spec: \<open>HK_KEYS\<close> is defined in \<open>models_hk\<close>, which is not among the
  sources; these are the four property names the specification lists as required of both
  the material and the adsorbate.
\<close>

definition HK_KEYS :: "string list" where
  "HK_KEYS = [''molecular_diameter'', ''polarizability'', ''magnetic_susceptibility'',
     ''surface_density'']"

text \<open>
  \<open>repr\<close> of a list of strings, as an f-string prints it; strings that contain quotes,
  backslashes or control characters (which \<open>repr\<close> would escape) are outside the model.
\<close>

fun join_str :: "string \<Rightarrow> string list \<Rightarrow> string" where
  "join_str sep [] = []"
| "join_str sep [x] = x"
| "join_str sep (x # y # xs) = x @ sep @ join_str sep (y # xs)"

definition py_repr_list :: "string list \<Rightarrow> string" where
  "py_repr_list xs = ''['' @ join_str '', '' (map (\<lambda>s. [CHR 0x27] @ s @ [CHR 0x27]) xs) @ '']''"

text \<open>
  The parameter checks at the head of both kernels. Each comprehension runs over the keys
  of the dictionary it was given and keeps those that are not among the allowed names.
\<close>

definition check_properties :: "props \<Rightarrow> props \<Rightarrow> py_error + unit" where
  "check_properties adsorbate_properties material_properties =
     (let missing = filter (\<lambda>x. x \<notin> set HK_KEYS) (map fst material_properties) in
      if missing \<noteq> [] then
        Inl (ParameterError
          [''Adsorbent properties dictionary is missing parameters: '' @ py_repr_list missing @ ''.''])
      else
        let missing = filter
              (\<lambda>x. x \<notin> set (HK_KEYS @ [''liquid_density'', ''adsorbate_molar_mass'']))
              (map fst adsorbate_properties) in
        if missing \<noteq> [] then
          Inl (ParameterError
            [''Adsorbate properties dictionary is missing parameters: '' @ py_repr_list missing @ ''.''])
        else Inr ())"

text \<open>The constants both kernels unpack and derive before they look at the geometry.\<close>

record hk_setup =
  d_ads :: real
  d_mat :: real
  n_ads :: real
  n_mat :: real
  a_ads :: real
  a_mat :: real
  d_eff :: real
  N_RT :: real

definition hk_constants :: "constants \<Rightarrow> real \<Rightarrow> props \<Rightarrow> props \<Rightarrow> py_error + hk_setup" where
  "hk_constants c temperature adsorbate_properties material_properties =
     bindE (getitem adsorbate_properties ''molecular_diameter'') (\<lambda>da.
     bindE (getitem material_properties ''molecular_diameter'') (\<lambda>dm.
     bindE (getitem adsorbate_properties ''surface_density'') (\<lambda>na.
     bindE (getitem material_properties ''surface_density'') (\<lambda>nm.
     bindE (dispersion_from_dict c adsorbate_properties material_properties) (\<lambda>(aa, am).
     bindE (N_over_RT c temperature) (\<lambda>nrt.
       Inr \<lparr>d_ads = da, d_mat = dm, n_ads = na, n_mat = nm, a_ads = aa, a_mat = am,
            d_eff = (da + dm) / 2, N_RT = nrt\<rparr>))))))"

text \<open>
  The potential of a pore of a given width. Each geometry branch of a kernel derives a few
  more constants from the setup (a division there can raise) and closes a function
  \<open>potential(l_pore)\<close> over them, which the minimiser calls at widths of its choosing and
  which can raise in its turn. A family of potentials gives, for a kernel, a geometry name
  and the setup, either the exception raised while the closure is built, or the closure.
  The kernels below are written for any such family; the family the source builds is
  \<open>source_potentials\<close>, defined after them.
\<close>

datatype kernel = HK | RY

type_synonym potential_models = "kernel \<Rightarrow> string \<Rightarrow> hk_setup \<Rightarrow> py_error + objective"

text \<open>The \<open>if use_cy\<close> that every geometry branch ends with.\<close>

definition solve_widths ::
  "minimizer \<Rightarrow> bool \<Rightarrow> real list \<Rightarrow> real list \<Rightarrow> objective \<Rightarrow> real \<Rightarrow> py_error + real list" where
  "solve_widths ms use_cy pressure loading potential bound =
     (if use_cy then solve_hk_cy ms pressure loading potential bound
      else solve_hk ms pressure potential bound)"

text \<open>
  The geometry branches. A slit is searched from \<open>2 * d_eff\<close> and the solved distance loses
  the material's diameter; a cylinder and a sphere are searched from \<open>d_eff\<close> and the
  solved radius is doubled first. For any other geometry name no branch runs and
  \<open>pore_widths\<close> stays unbound (\<open>None\<close>).
\<close>

definition pore_widths_of ::
  "minimizer \<Rightarrow> potential_models \<Rightarrow> kernel \<Rightarrow> bool \<Rightarrow> string \<Rightarrow> hk_setup \<Rightarrow>
   real list \<Rightarrow> real list \<Rightarrow> py_error + real list option" where
  "pore_widths_of ms pm k use_cy pore_geometry s pressure loading =
     (if pore_geometry = ''slit'' then
        bindE (pm k ''slit'' s) (\<lambda>potential.
        bindE (solve_widths ms use_cy pressure loading potential (2 * d_eff s)) (\<lambda>pore_widths.
          Inr (Some (map (\<lambda>w. w - d_mat s) pore_widths))))
      else if pore_geometry = ''cylinder'' then
        bindE (pm k ''cylinder'' s) (\<lambda>potential.
        bindE (solve_widths ms use_cy pressure loading potential (d_eff s)) (\<lambda>pore_widths.
          Inr (Some (map (\<lambda>w. 2 * w - d_mat s) pore_widths))))
      else if pore_geometry = ''sphere'' then
        bindE (pm k ''sphere'' s) (\<lambda>potential.
        bindE (solve_widths ms use_cy pressure loading potential (d_eff s)) (\<lambda>pore_widths.
          Inr (Some (map (\<lambda>w. 2 * w - d_mat s) pore_widths))))
      else Inr None)"

text \<open>numpy on one-dimensional arrays: \<open>numpy.diff\<close>, a broadcast division, a boolean mask.\<close>

definition np_diff :: "npfloat list \<Rightarrow> npfloat list" where
  "np_diff xs = map (\<lambda>(a, b). np_sub b a) (zip xs (tl xs))"

definition np_divide :: "npfloat list \<Rightarrow> npfloat list \<Rightarrow> py_error + npfloat list" where
  "np_divide xs ys =
     (if length xs = length ys then Inr (map (\<lambda>(x, y). np_div x y) (zip xs ys))
      else if length xs = 1 then Inr (map (\<lambda>y. np_div (hd xs) y) ys)
      else if length ys = 1 then Inr (map (\<lambda>x. np_div x (hd ys)) xs)
      else Inl ValueError)"

definition np_mask :: "'a list \<Rightarrow> bool list \<Rightarrow> py_error + 'a list" where
  "np_mask xs sel =
     (if length sel \<noteq> length xs then Inl IndexError
      else Inr (map fst (filter snd (zip xs sel))))"

text \<open>
  The block both kernels end with ("finally calculate pore distribution"): the midpoints
  of consecutive widths, the adsorbed volume, and the quotient of their differences.
  It yields the midpoints, the distribution and the whole volume array.
\<close>

definition calc_pore_distribution ::
  "props \<Rightarrow> real list option \<Rightarrow> real list \<Rightarrow>
   py_error + real list \<times> npfloat list \<times> npfloat list" where
  "calc_pore_distribution adsorbate_properties pore_widths loading =
     bindE (getitem adsorbate_properties ''liquid_density'') (\<lambda>liquid_density.
     bindE (getitem adsorbate_properties ''adsorbate_molar_mass'') (\<lambda>adsorbate_molar_mass.
       case pore_widths of
         None \<Rightarrow> Inl (UnboundLocalError ''pore_widths'')
       | Some w \<Rightarrow>
           let avg_pore_widths = map (\<lambda>(a, b). (a + b) / 2) (zip (butlast w) (tl w));
               volume_adsorbed =
                 map (\<lambda>n. np_div (np_div (Fin (n * adsorbate_molar_mass)) (Fin liquid_density))
                            (Fin 1000)) loading
           in bindE (np_divide (np_diff volume_adsorbed) (np_diff (map Fin w))) (\<lambda>pore_dist.
                Inr (avg_pore_widths, pore_dist, volume_adsorbed))))"

text \<open>The mask of the HK kernel: \<open>(1e-3 < pore_dist) & (pore_dist < 1e3)\<close>.\<close>

definition in_band :: "npfloat \<Rightarrow> bool" where
  "in_band v = (np_less (Fin (1 / 1000)) v \<and> np_less v (Fin 1000))"

definition psd_horvath_kawazoe ::
  "minimizer \<Rightarrow> potential_models \<Rightarrow> constants \<Rightarrow> real list \<Rightarrow> real list \<Rightarrow> real \<Rightarrow> string \<Rightarrow>
   props \<Rightarrow> props \<Rightarrow> bool \<Rightarrow> py_error + real list \<times> npfloat list \<times> npfloat list" where
  "psd_horvath_kawazoe ms pm c pressure loading temperature pore_geometry
       adsorbate_properties material_properties use_cy =
     bindE (check_properties adsorbate_properties material_properties) (\<lambda>_.
     bindE (hk_constants c temperature adsorbate_properties material_properties) (\<lambda>s.
     bindE (pore_widths_of ms pm HK use_cy pore_geometry s pressure loading) (\<lambda>pore_widths.
     bindE (calc_pore_distribution adsorbate_properties pore_widths loading)
       (\<lambda>(avg_pore_widths, pore_dist, volume_adsorbed).
         let out = map in_band pore_dist in
         bindE (np_mask avg_pore_widths out) (\<lambda>r1.
         bindE (np_mask pore_dist out) (\<lambda>r2.
         bindE (np_mask (tl volume_adsorbed) out) (\<lambda>r3.
           Inr (r1, r2, r3))))))))"

definition psd_horvath_kawazoe_ry ::
  "minimizer \<Rightarrow> potential_models \<Rightarrow> constants \<Rightarrow> real list \<Rightarrow> real list \<Rightarrow> real \<Rightarrow> string \<Rightarrow>
   props \<Rightarrow> props \<Rightarrow> bool \<Rightarrow> py_error + real list \<times> npfloat list \<times> npfloat list" where
  "psd_horvath_kawazoe_ry ms pm c pressure loading temperature pore_geometry
       adsorbate_properties material_properties use_cy =
     bindE (check_properties adsorbate_properties material_properties) (\<lambda>_.
     bindE (hk_constants c temperature adsorbate_properties material_properties) (\<lambda>s.
     bindE (pore_widths_of ms pm RY use_cy pore_geometry s pressure loading) (\<lambda>pore_widths.
     bindE (calc_pore_distribution adsorbate_properties pore_widths loading)
       (\<lambda>(avg_pore_widths, pore_dist, volume_adsorbed).
         Inr (avg_pore_widths, pore_dist, tl volume_adsorbed)))))"

section \<open>The potentials of the source\<close>

text \<open>
  The six closures, one for each kernel and geometry. What a branch computes before it
  defines its closure is arithmetic on Python floats, where a zero divisor raises. Inside
  a closure everything that depends on \<open>l_pore\<close> is a numpy float (the minimiser calls the
  objective on numpy floats), so a division there yields an infinity or NaN; the parts
  that do not depend on \<open>l_pore\<close> stay Python floats. \<open>const.pi\<close> is \<open>pi\<close>.
\<close>

subsection \<open>The HK kernel\<close>





subsection \<open>The RY kernel\<close>













section \<open>The driver\<close>

definition MICRO_PSD_MODELS :: "string list" where
  "MICRO_PSD_MODELS = [''HK'', ''HK-CY'', ''RY'', ''RY-CY'']"

definition PORE_GEOMETRIES :: "string list" where
  "PORE_GEOMETRIES = [''slit'', ''cylinder'', ''sphere'']"

text \<open>
  The function parameter checks, in the order of the source. \<open>psd_model\<close> is a string or
  \<open>None\<close>. The last exception is constructed with two arguments.
\<close>

definition parameter_checks :: "string option \<Rightarrow> string \<Rightarrow> string \<Rightarrow> py_error + string" where
  "parameter_checks psd_model pore_geometry branch =
     (case psd_model of
        None \<Rightarrow>
          Inl (ParameterError
            [''Specify a model to generate the pore size distribution e.g. psd_model=''
               @ [CHR 0x22] @ ''HK'' @ [CHR 0x22]])
      | Some m \<Rightarrow>
          if m \<notin> set MICRO_PSD_MODELS then
            Inl (ParameterError
              [''Model '' @ m @ '' not an option for psd. Available models are ''
                 @ py_repr_list MICRO_PSD_MODELS])
          else if pore_geometry \<notin> set PORE_GEOMETRIES then
            Inl (ParameterError
              [''Geometry '' @ pore_geometry
                 @ '' not an option for pore size distribution. Available geometries are ''
                 @ py_repr_list PORE_GEOMETRIES])
          else if branch \<notin> set [''ads'', ''des''] then
            Inl (ParameterError
              [''Branch '' @ [CHR 0x27] @ branch @ [CHR 0x27] @ '' not an option for PSD.'',
               ''Select either 'ads' or 'des'' @ [CHR 0x27]])
          else Inr m)"

text \<open>
  Modelled from the spec: the \<open>Isotherm\<close> and \<open>Adsorbate\<close> classes and \<open>get_hk_model\<close> are not
  among the sources. An isotherm gives, for a branch name, the loading series (or \<open>None\<close>
  when it has no such branch) and the relative pressure series, its temperature, and its
  adsorbate when that is a recognised one; an adsorbate gives its properties, each lookup
  of which may raise; the registry gives the property mapping of a material model, which
  is a name or a mapping, or raises.
\<close>

record adsorbate =
  get_prop :: "string \<Rightarrow> py_error + real"
  liquid_density :: "real \<Rightarrow> py_error + real"
  molar_mass :: "py_error + real"

record isotherm =
  iso_adsorbate :: "adsorbate option"
  iso_temperature :: real
  iso_loading :: "string \<Rightarrow> real list option"
  iso_pressure :: "string \<Rightarrow> real list"

type_synonym material_model = "string + props"

text \<open>
  What a call runs with: the minimiser of scipy, the physical constants and the registry
  of material models, which come from outside the repository, and the family of
  potentials of the kernels, which for the source is \<open>source_potentials\<close>.
\<close>

record env =
  minimize_scalar :: minimizer
  potentials :: potential_models
  phys :: constants
  get_hk_model :: "material_model \<Rightarrow> py_error + props"

text \<open>
  "Get adsorbate properties": a given dictionary is used as it is; otherwise the six
  entries are looked up on the isotherm's adsorbate, in the order of the dict display.
\<close>

definition adsorbate_model_of :: "isotherm \<Rightarrow> props option \<Rightarrow> py_error + props" where
  "adsorbate_model_of isoth adsorbate_model =
     (case adsorbate_model of
        Some d \<Rightarrow> Inr d
      | None \<Rightarrow>
          (case iso_adsorbate isoth of
             None \<Rightarrow>
               Inl (ParameterError
                 [''Isotherm adsorbate is not known, cannot calculate PSD.''
                    @ ''Either use a recognised adsorbate (i.e. nitrogen) or ''
                    @ ''pass a dictionary with your adsorbate parameters.''])
           | Some a \<Rightarrow>
               bindE (get_prop a ''molecular_diameter'') (\<lambda>v1.
               bindE (get_prop a ''polarizability'') (\<lambda>v2.
               bindE (get_prop a ''magnetic_susceptibility'') (\<lambda>v3.
               bindE (get_prop a ''surface_density'') (\<lambda>v4.
               bindE (liquid_density a (iso_temperature isoth)) (\<lambda>v5.
               bindE (molar_mass a) (\<lambda>v6.
                 Inr [(''molecular_diameter'', v1), (''polarizability'', v2),
                      (''magnetic_susceptibility'', v3), (''surface_density'', v4),
                      (''liquid_density'', v5), (''adsorbate_molar_mass'', v6)]))))))))"

text \<open>
  "Read data in": the loading and the pressure of the branch; on the desorption branch
  both are reversed. The result is the pair (loading, pressure).
\<close>

definition branch_data :: "isotherm \<Rightarrow> string \<Rightarrow> py_error + real list \<times> real list" where
  "branch_data isoth branch =
     (case iso_loading isoth branch of
        None \<Rightarrow>
          Inl (ParameterError
            [''The isotherm does not have the required branch for this calculation''])
      | Some loading \<Rightarrow>
          let pressure = iso_pressure isoth branch in
          if branch = ''des'' then Inr (rev loading, rev pressure)
          else Inr (loading, pressure))"

text \<open>
  \<open>numpy.searchsorted(a, v)\<close> with its default side: a binary search for the leftmost
  insertion point of \<open>v\<close>, which halves the interval \<open>[lo, hi)\<close> until it is empty.
\<close>

function bsearch_left :: "real list \<Rightarrow> real \<Rightarrow> nat \<Rightarrow> nat \<Rightarrow> nat" where
  "bsearch_left a v lo hi =
     (if lo < hi then
        (let mid = lo + (hi - lo) div 2 in
         if a ! mid < v then bsearch_left a v (mid + 1) hi
         else bsearch_left a v lo mid)
      else lo)"
  by pat_completeness auto
termination
  by (relation "measure (\<lambda>(a, v, lo, hi). hi - lo)") auto

definition searchsorted :: "real list \<Rightarrow> real \<Rightarrow> nat" where
  "searchsorted a v = bsearch_left a v 0 (length a)"

text \<open>The slice \<open>xs[i:j]\<close> for indices that are not negative.\<close>

definition slice :: "'a list \<Rightarrow> nat \<Rightarrow> nat \<Rightarrow> 'a list" where
  "slice xs i j = drop i (take j xs)"

text \<open>
  "Determine the limits". \<open>p_limits\<close> is \<open>None\<close> or a pair whose entries are floats or
  \<open>None\<close>; an entry is used only when it is truthy, that is neither \<open>None\<close> nor zero.
  The two indices of the window, then the check and the two slices.
\<close>

definition window_indices :: "(real option \<times> real option) option \<Rightarrow> real list \<Rightarrow> nat \<times> nat" where
  "window_indices p_limits pressure =
     (let limits = (case p_limits of None \<Rightarrow> (None, Some (2 / 10)) | Some l \<Rightarrow> l);
          minimum = (case fst limits of
                       None \<Rightarrow> 0
                     | Some v \<Rightarrow> if v \<noteq> 0 then searchsorted pressure v else 0);
          maximum = (case snd limits of
                       None \<Rightarrow> length pressure
                     | Some v \<Rightarrow> if v \<noteq> 0 then searchsorted pressure v else length pressure)
      in (minimum, maximum))"

definition pressure_window ::
  "(real option \<times> real option) option \<Rightarrow> real list \<Rightarrow> real list \<Rightarrow>
   py_error + real list \<times> real list" where
  "pressure_window p_limits pressure loading =
     (case window_indices p_limits pressure of (minimum, maximum) \<Rightarrow>
        if int maximum - int minimum < 3 then
          Inl (CalculationError
            [''The isotherm does not have enough points (at least 3) in the selected region.''])
        else Inr (slice pressure minimum maximum, slice loading minimum maximum))"

text \<open>The result dictionary.\<close>

record psd_result =
  pore_widths :: "real list"
  pore_distribution :: "npfloat list"
  pore_volume_cumulative :: "npfloat list"

text \<open>
  The dispatch on the model name. After the parameter checks one of the two tests holds;
  were neither to hold, the names the result is built from would be unbound.
\<close>

definition dispatch_kernel ::
  "env \<Rightarrow> string \<Rightarrow> real list \<Rightarrow> real list \<Rightarrow> real \<Rightarrow> string \<Rightarrow> props \<Rightarrow> props \<Rightarrow>
   py_error + real list \<times> npfloat list \<times> npfloat list" where
  "dispatch_kernel e psd_model pressure loading temperature pore_geometry
       adsorbate_model material_properties =
     (if psd_model \<in> set [''HK'', ''HK-CY''] then
        psd_horvath_kawazoe (minimize_scalar e) (potentials e) (phys e) pressure loading
          temperature pore_geometry adsorbate_model material_properties
          (if psd_model = ''HK'' then False else True)
      else if psd_model \<in> set [''RY'', ''RY-CY''] then
        psd_horvath_kawazoe_ry (minimize_scalar e) (potentials e) (phys e) pressure loading
          temperature pore_geometry adsorbate_model material_properties
          (if psd_model = ''RY'' then False else True)
      else Inl (UnboundLocalError ''pore_widths''))"

text \<open>
  \<open>psd_microporous\<close> with \<open>verbose=False\<close> (the plot of the verbose mode is left out).
\<close>

definition psd_microporous ::
  "env \<Rightarrow> isotherm \<Rightarrow> string option \<Rightarrow> string \<Rightarrow> string \<Rightarrow> material_model \<Rightarrow> props option \<Rightarrow>
   (real option \<times> real option) option \<Rightarrow> py_error + psd_result" where
  "psd_microporous e isoth psd_model pore_geometry branch material_model adsorbate_model p_limits =
     bindE (parameter_checks psd_model pore_geometry branch) (\<lambda>model.
     bindE (adsorbate_model_of isoth adsorbate_model) (\<lambda>adsorbate_props.
     bindE (get_hk_model e material_model) (\<lambda>material_properties.
     bindE (branch_data isoth branch) (\<lambda>(loading, pressure).
     bindE (pressure_window p_limits pressure loading) (\<lambda>(pressure, loading).
     bindE (dispatch_kernel e model pressure loading (iso_temperature isoth) pore_geometry
              adsorbate_props material_properties)
       (\<lambda>(widths, pore_dist, pore_vol_cum).
         Inr \<lparr>pore_widths = widths, pore_distribution = pore_dist,
              pore_volume_cumulative = pore_vol_cum\<rparr>))))))"

section \<open>The checks of the IAST solvers\<close>

text \<open>
  Modelled from the spec: \<open>iast\<close> and \<open>reverse_iast\<close> are not among the sources (only their
  tests are). The specification says of the forward mode that it "fails with ParameterError
  if N<2 or vector length mismatch", and of the reverse mode that it "fails if fractions
  don't sum to 1 (tolerance check) or component count mismatch"; the tests expect a
  \<open>ParameterError\<close> from both for a single component. The tolerance and the solvers proper
  are parameters, and the messages are not known.
\<close>

definition iast ::
  "('i list \<Rightarrow> real list \<Rightarrow> py_error + real list) \<Rightarrow> 'i list \<Rightarrow> real list \<Rightarrow>
   py_error + real list" where
  "iast solve isotherms partial_pressures =
     (if length isotherms < 2 then Inl (ParameterError [])
      else if length partial_pressures \<noteq> length isotherms then Inl (ParameterError [])
      else solve isotherms partial_pressures)"

definition reverse_iast ::
  "real \<Rightarrow> ('i list \<Rightarrow> real list \<Rightarrow> real \<Rightarrow> py_error + real list \<times> real list) \<Rightarrow>
   'i list \<Rightarrow> real list \<Rightarrow> real \<Rightarrow> py_error + real list \<times> real list" where
  "reverse_iast tol solve isotherms adsorbed_mole_fractions total_pressure =
     (if length isotherms < 2 then Inl (ParameterError [])
      else if length adsorbed_mole_fractions \<noteq> length isotherms then Inl (ParameterError [])
      else if tol < \<bar>sum_list adsorbed_mole_fractions - 1\<bar> then Inl (ParameterError [])
      else solve isotherms adsorbed_mole_fractions total_pressure)"

section \<open>Sample data\<close>

text \<open>
  Concrete values for worked examples: the physical constants (CODATA 2018, to the digits
  shown), property mappings of the size of those of nitrogen and of a carbon surface, and
  stand-ins for the two numerical parameters. The stand-in potential is minus infinity
  everywhere, so that the objective of a point is the constant \<open>p\<^sup>2\<close>; the stand-in
  minimiser evaluates the objective at the lower bound and returns the lower bound plus
  the value (the lower bound itself when the value is not finite, the exception when the
  objective raises), which makes the solved width of a point depend on the point.
\<close>

definition sample_constants :: constants where
  "sample_constants =
     \<lparr>electron_mass = 91093837015 / 10 ^ 41, speed_of_light = 299792458,
      Avogadro = 602214076 * 10 ^ 15, gas_constant = 8314462618 / 10 ^ 9\<rparr>"

definition nitrogen_props :: props where
  "nitrogen_props =
     [(''molecular_diameter'', 3 / 10), (''polarizability'', 176 / 10 ^ 5),
      (''magnetic_susceptibility'', 36 / 10 ^ 9), (''surface_density'', 671 * 10 ^ 16),
      (''liquid_density'', 8 / 10), (''adsorbate_molar_mass'', 28)]"

definition carbon_props :: props where
  "carbon_props =
     [(''molecular_diameter'', 34 / 100), (''polarizability'', 102 / 10 ^ 5),
      (''magnetic_susceptibility'', 135 / 10 ^ 9), (''surface_density'', 3845 * 10 ^ 16)]"

definition sample_minimizer :: minimizer where
  "sample_minimizer f b =
     (case f (fst b) of
        Inl err \<Rightarrow> Inl err
      | Inr (Fin y) \<Rightarrow> Inr (fst b + y)
      | Inr _ \<Rightarrow> Inr (fst b))"

definition sample_potentials :: potential_models where
  "sample_potentials k g s = Inr (\<lambda>l. Inr NInf)"


text \<open>
  An isotherm of nitrogen at 77 K with five points on each branch (the desorption branch
  is stored from the highest pressure down), and an environment whose registry knows one
  material model.
\<close>

definition nitrogen :: adsorbate where
  "nitrogen =
     \<lparr>get_prop = getitem nitrogen_props,
      liquid_density = (\<lambda>t. getitem nitrogen_props ''liquid_density''),
      molar_mass = getitem nitrogen_props ''adsorbate_molar_mass''\<rparr>"

definition sample_isotherm :: isotherm where
  "sample_isotherm =
     \<lparr>iso_adsorbate = Some nitrogen, iso_temperature = 77,
      iso_loading = (\<lambda>b. if b = ''ads'' then Some [1, 2, 4, 4, 5]
                          else if b = ''des'' then Some [5, 9 / 2, 4, 2, 1] else None),
      iso_pressure = (\<lambda>b. if b = ''ads'' then [1 / 100, 5 / 100, 10 / 100, 15 / 100, 30 / 100]
                           else if b = ''des'' then [30 / 100, 15 / 100, 10 / 100, 5 / 100, 1 / 100]
                           else [])\<rparr>"

text \<open>The same isotherm with the desorption branch stored from the lowest pressure up.\<close>

definition sample_isotherm_rising :: isotherm where
  "sample_isotherm_rising =
     sample_isotherm
       \<lparr>iso_loading := (\<lambda>b. if b = ''ads'' then Some [1, 2, 4, 4, 5]
                            else if b = ''des'' then Some [1, 2, 4, 9 / 2, 5] else None),
        iso_pressure := (\<lambda>b. if b = ''ads'' \<or> b = ''des''
                             then [1 / 100, 5 / 100, 10 / 100, 15 / 100, 30 / 100] else [])\<rparr>"

definition sample_env :: env where
  "sample_env =
     \<lparr>minimize_scalar = sample_minimizer, potentials = sample_potentials, phys = sample_constants,
      get_hk_model = (\<lambda>m. case m of
          Inl name \<Rightarrow> if name = ''Carbon(HK)'' then Inr carbon_props
                      else Inl (ParameterError [''Model '' @ name @ '' not found''])
        | Inr d \<Rightarrow> Inr d)\<rparr>"

section \<open>Properties of the solvers\<close>


lemma bindE_InrE:
  assumes "bindE m f = Inr y"
  obtains x where "m = Inr x" and "f x = Inr y"
  using assms by (cases m) (simp_all add: bindE_def)

text \<open>
  A loop returns exactly when every minimisation it makes returns, and then it has
  appended the results in the order of the points.
\<close>

lemma solve_hk_loop_Inr:
  "solve_hk_loop ms hk_fun bound ps p_w = Inr ws \<longleftrightarrow>
     (\<exists>xs. ws = p_w @ xs
        \<and> list_all2 (\<lambda>p x. ms (fun_hk hk_fun p) (bound, 50) = Inr x) ps xs)"
proof (induction ps arbitrary: p_w)
  case Nil
  show ?case by auto
next
  case (Cons p ps)
  show ?case
  proof
    assume "solve_hk_loop ms hk_fun bound (p # ps) p_w = Inr ws"
    then obtain x where x: "ms (fun_hk hk_fun p) (bound, 50) = Inr x"
      and r: "solve_hk_loop ms hk_fun bound ps (p_w @ [x]) = Inr ws"
      by (auto elim: bindE_InrE)
    from r obtain xs where "ws = (p_w @ [x]) @ xs"
      and "list_all2 (\<lambda>p x. ms (fun_hk hk_fun p) (bound, 50) = Inr x) ps xs"
      unfolding Cons.IH by blast
    with x have "ws = p_w @ (x # xs)
        \<and> list_all2 (\<lambda>p x. ms (fun_hk hk_fun p) (bound, 50) = Inr x) (p # ps) (x # xs)"
      by simp
    then show "\<exists>xs. ws = p_w @ xs
        \<and> list_all2 (\<lambda>p x. ms (fun_hk hk_fun p) (bound, 50) = Inr x) (p # ps) xs"
      by blast
  next
    assume "\<exists>xs. ws = p_w @ xs
        \<and> list_all2 (\<lambda>p x. ms (fun_hk hk_fun p) (bound, 50) = Inr x) (p # ps) xs"
    then obtain x xs where ws: "ws = p_w @ x # xs"
      and x: "ms (fun_hk hk_fun p) (bound, 50) = Inr x"
      and xs: "list_all2 (\<lambda>p x. ms (fun_hk hk_fun p) (bound, 50) = Inr x) ps xs"
      by (auto simp: list_all2_Cons1)
    from ws xs have "solve_hk_loop ms hk_fun bound ps (p_w @ [x]) = Inr ws"
      unfolding Cons.IH by simp
    with x show "solve_hk_loop ms hk_fun bound (p # ps) p_w = Inr ws"
      by (simp add: bindE_def)
  qed
qed

lemma solve_hk_Inr:
  "solve_hk ms pressure hk_fun bound = Inr ws \<longleftrightarrow>
     list_all2 (\<lambda>p x. ms (fun_hk hk_fun p) (bound, 50) = Inr x) pressure ws"
  by (simp add: solve_hk_def solve_hk_loop_Inr)

lemma solve_hk_length:
  "solve_hk ms pressure hk_fun bound = Inr ws \<Longrightarrow> length ws = length pressure"
  by (auto simp: solve_hk_Inr dest: list_all2_lengthD)

lemma solve_hk_cy_loop_Inr:
  "solve_hk_cy_loop ms hk_fun bound ps cs p_w = Inr ws \<longleftrightarrow>
     (\<exists>xs. ws = p_w @ xs
        \<and> list_all2 (\<lambda>(p, c) x. ms (fun_cy hk_fun p c) (bound, 50) = Inr x) (zip ps cs) xs)"
proof (induction ms hk_fun bound ps cs p_w rule: solve_hk_cy_loop.induct)
  case (1 ms hk_fun bound p ps c cs p_w)
  show ?case
  proof
    assume "solve_hk_cy_loop ms hk_fun bound (p # ps) (c # cs) p_w = Inr ws"
    then obtain x where x: "ms (fun_cy hk_fun p c) (bound, 50) = Inr x"
      and r: "solve_hk_cy_loop ms hk_fun bound ps cs (p_w @ [x]) = Inr ws"
      by (auto elim: bindE_InrE)
    from r obtain xs where "ws = (p_w @ [x]) @ xs"
      and "list_all2 (\<lambda>(p, c) x. ms (fun_cy hk_fun p c) (bound, 50) = Inr x) (zip ps cs) xs"
      unfolding "1.IH" by blast
    with x have "ws = p_w @ (x # xs)
        \<and> list_all2 (\<lambda>(p, c) x. ms (fun_cy hk_fun p c) (bound, 50) = Inr x)
            (zip (p # ps) (c # cs)) (x # xs)"
      by simp
    then show "\<exists>xs. ws = p_w @ xs
        \<and> list_all2 (\<lambda>(p, c) x. ms (fun_cy hk_fun p c) (bound, 50) = Inr x)
            (zip (p # ps) (c # cs)) xs"
      by blast
  next
    assume "\<exists>xs. ws = p_w @ xs
        \<and> list_all2 (\<lambda>(p, c) x. ms (fun_cy hk_fun p c) (bound, 50) = Inr x)
            (zip (p # ps) (c # cs)) xs"
    then obtain x xs where ws: "ws = p_w @ x # xs"
      and x: "ms (fun_cy hk_fun p c) (bound, 50) = Inr x"
      and xs: "list_all2 (\<lambda>(p, c) x. ms (fun_cy hk_fun p c) (bound, 50) = Inr x) (zip ps cs) xs"
      by (auto simp: list_all2_Cons1)
    from ws xs have "solve_hk_cy_loop ms hk_fun bound ps cs (p_w @ [x]) = Inr ws"
      unfolding "1.IH" by simp
    with x show "solve_hk_cy_loop ms hk_fun bound (p # ps) (c # cs) p_w = Inr ws"
      by (simp add: bindE_def)
  qed
qed auto

lemma solve_hk_cy_empty: "solve_hk_cy ms pressure [] hk_fun bound = Inl IndexError"
  by (simp add: solve_hk_cy_def coverage_of_def bindE_def)

lemma solve_hk_cy_Inr:
  assumes "loading \<noteq> []"
  shows "solve_hk_cy ms pressure loading hk_fun bound = Inr ws \<longleftrightarrow>
     list_all2
       (\<lambda>(p, n) x. ms (fun_cy hk_fun p (np_div (Fin n) (Fin (last loading)))) (bound, 50) = Inr x)
       (zip pressure loading) ws"
proof -
  have "solve_hk_cy ms pressure loading hk_fun bound = Inr ws \<longleftrightarrow>
     list_all2 (\<lambda>(p, c) x. ms (fun_cy hk_fun p c) (bound, 50) = Inr x)
       (zip pressure (map (\<lambda>n. np_div (Fin n) (Fin (last loading))) loading)) ws"
    using assms by (simp add: solve_hk_cy_def coverage_of_def bindE_def solve_hk_cy_loop_Inr)
  also have "zip pressure (map (\<lambda>n. np_div (Fin n) (Fin (last loading))) loading)
      = map (\<lambda>(p, n). (p, np_div (Fin n) (Fin (last loading)))) (zip pressure loading)"
    by (simp add: zip_map2)
  finally show ?thesis
    by (simp add: list_all2_map1 split_def)
qed

lemma solve_hk_cy_length:
  assumes "solve_hk_cy ms pressure loading hk_fun bound = Inr ws"
  shows "length ws = min (length pressure) (length loading)"
proof (cases "loading = []")
  case True
  with assms show ?thesis by (simp add: solve_hk_cy_empty)
next
  case False
  from assms have "length (zip pressure loading) = length ws"
    unfolding solve_hk_cy_Inr[OF False] by (rule list_all2_lengthD)
  then show ?thesis by simp
qed

text \<open>
  When the minimiser returns on every objective that does not raise, and the potential
  does not raise, the solvers return.
\<close>

lemma list_all2_total:
  assumes "\<And>p. \<exists>x. P p x"
  shows "\<exists>xs. list_all2 P ps xs"
proof (induction ps)
  case Nil
  show ?case by simp
next
  case (Cons p ps)
  then obtain xs where xs: "list_all2 P ps xs" ..
  obtain x where "P p x"
    using assms ..
  with xs have "list_all2 P (p # ps) (x # xs)"
    by simp
  then show ?case ..
qed


lemma fun_cy_returns:
  assumes "\<forall>l. \<exists>u. hk_fun l = Inr u"
  shows "\<forall>l. \<exists>y. fun_cy hk_fun p_point c_point l = Inr y"
proof
  fix l
  from assms obtain u where "hk_fun l = Inr u" by blast
  then show "\<exists>y. fun_cy hk_fun p_point c_point l = Inr y"
    by (simp add: fun_cy_def bindE_def Let_def)
qed


lemma solve_hk_cy_returns:
  assumes ms: "\<forall>f. (\<forall>l. \<exists>y. f l = Inr y) \<longrightarrow> (\<exists>x. ms f (bound, 50) = Inr x)"
      and hk: "\<forall>l. \<exists>u. hk_fun l = Inr u"
      and ne: "loading \<noteq> []"
  shows "\<exists>ws. solve_hk_cy ms pressure loading hk_fun bound = Inr ws"
proof -
  have "\<exists>ws. list_all2
       (\<lambda>(p, n) x. ms (fun_cy hk_fun p (np_div (Fin n) (Fin (last loading)))) (bound, 50) = Inr x)
       (zip pressure loading) ws"
  proof (rule list_all2_total)
    fix pn :: "real \<times> real"
    obtain p n where pn: "pn = (p, n)"
      by (cases pn)
    let ?f = "fun_cy hk_fun p (np_div (Fin n) (Fin (last loading)))"
    have "\<forall>l. \<exists>y. ?f l = Inr y"
      using hk by (rule fun_cy_returns)
    then have "\<exists>x. ms ?f (bound, 50) = Inr x"
      by (rule ms [THEN spec, THEN mp])
    then show "\<exists>x. (case pn of (p, n) \<Rightarrow>
        \<lambda>x. ms (fun_cy hk_fun p (np_div (Fin n) (Fin (last loading)))) (bound, 50) = Inr x) x"
      by (simp only: pn prod.case)
  qed
  then show ?thesis
    unfolding solve_hk_cy_Inr [OF ne] .
qed













text \<open>
  C10 (as amended). For every non-empty loading sequence whose last element is not zero,
  the coverage \<open>_solve_hk_cy\<close> computes has one entry per loading and its last entry is
  exactly 1; so the correction of the last point takes the logarithm of \<open>1 - 1 = 0\<close>, which
  numpy evaluates to minus infinity, the correction is minus infinity, and the objective
  of the last point is plus infinity wherever the potential is finite. Nothing guards the
  evaluation: the solver hands that objective to the minimiser as it does for every other
  point, and the width it returns for the last point is what the minimiser made of it.
\<close>

theorem final_coverage_is_one:
  assumes ne: "loading \<noteq> []" and nz: "last loading \<noteq> 0"
  shows "\<exists>coverage.
           coverage_of loading = Inr coverage
         \<and> length coverage = length loading
         \<and> last coverage = Fin 1
         \<and> np_sub (Fin 1) (last coverage) = Fin 0
         \<and> np_log (np_sub (Fin 1) (last coverage)) = NInf
         \<and> sf_corr (last coverage) = NInf
         \<and> (\<forall>p_point l_pore y. hk_fun l_pore = Inr (Fin y) \<longrightarrow>
               fun_cy hk_fun p_point (last coverage) l_pore = Inr PInf)
         \<and> (length pressure = length loading \<longrightarrow>
              (\<forall>ws. solve_hk_cy ms pressure loading hk_fun bound = Inr ws \<longrightarrow>
                 ms (fun_cy hk_fun (last pressure) (last coverage)) (bound, 50) = Inr (last ws))
            \<and> ((\<forall>f. (\<forall>l. \<exists>y. f l = Inr y) \<longrightarrow> (\<exists>x. ms f (bound, 50) = Inr x))
                  \<and> (\<forall>l. \<exists>u. hk_fun l = Inr u) \<longrightarrow>
                 (\<exists>ws. solve_hk_cy ms pressure loading hk_fun bound = Inr ws)))"
proof -
  let ?cov = "map (\<lambda>n. np_div (Fin n) (Fin (last loading))) loading"
  let ?P = "\<lambda>(p, c) x. ms (fun_cy hk_fun p c) (bound, 50) = Inr x"
  have c: "coverage_of loading = Inr ?cov"
    using ne by (simp add: coverage_of_def)
  have l1: "last ?cov = Fin 1"
    using ne nz by (simp add: last_map)
  have s: "solve_hk_cy ms pressure loading hk_fun bound = Inr ws \<longleftrightarrow>
      list_all2 ?P (zip pressure ?cov) ws" for ws
    by (simp add: solve_hk_cy_def c bindE_def solve_hk_cy_loop_Inr)
  have lw: "ms (fun_cy hk_fun (last pressure) (last ?cov)) (bound, 50) = Inr (last ws)"
    if len: "length pressure = length loading"
      and r: "solve_hk_cy ms pressure loading hk_fun bound = Inr ws" for ws
  proof -
    have pne: "pressure \<noteq> []"
      using ne len by auto
    have zl: "last (zip pressure ?cov) = (last pressure, last ?cov)"
      using len ne pne by (simp add: last_zip)
    have zne: "zip pressure ?cov \<noteq> []"
      using ne pne by (cases pressure; cases loading) simp_all
    from r have a: "list_all2 ?P (zip pressure ?cov) ws"
      by (simp add: s)
    then have ll: "length (zip pressure ?cov) = length ws"
      by (rule list_all2_lengthD)
    have wne: "ws \<noteq> []"
    proof
      assume "ws = []"
      then have "length (zip pressure ?cov) = 0"
        unfolding ll by simp
      then have "zip pressure ?cov = []"
        by (rule iffD1 [OF length_0_conv])
      with zne show False ..
    qed
    let ?i = "length ws - 1"
    have i: "?i < length (zip pressure ?cov)"
      unfolding ll using wne by simp
    have e1: "zip pressure ?cov ! ?i = last (zip pressure ?cov)"
      unfolding last_conv_nth [OF zne] ll ..
    have e2: "ws ! ?i = last ws"
      using wne by (simp add: last_conv_nth)
    from a i have "?P (zip pressure ?cov ! ?i) (ws ! ?i)"
      by (rule list_all2_nthD)
    then have "?P (last pressure, last ?cov) (last ws)"
      unfolding e1 e2 zl .
    then show ?thesis
      by (simp only: prod.case)
  qed
  have tot: "\<exists>ws. solve_hk_cy ms pressure loading hk_fun bound = Inr ws"
    if "\<forall>f. (\<forall>l. \<exists>y. f l = Inr y) \<longrightarrow> (\<exists>x. ms f (bound, 50) = Inr x)"
      and "\<forall>l. \<exists>u. hk_fun l = Inr u"
    using that ne by (rule solve_hk_cy_returns)
  have sf: "sf_corr (Fin 1) = NInf"
    by (simp add: sf_corr_def np_sub_def np_scale_inf_def)
  have obj: "\<forall>p_point l_pore y. hk_fun l_pore = Inr (Fin y) \<longrightarrow>
               fun_cy hk_fun p_point (Fin 1) l_pore = Inr PInf"
    by (simp add: fun_cy_def sf np_sub_def bindE_def)
  show ?thesis
    using c l1 lw tot sf obj
    by (simp add: np_sub_def)
qed

theorem final_coverage_is_one_witness:
  "[1, 2, 4 :: real] \<noteq> [] \<and> last [1, 2, 4 :: real] \<noteq> 0
   \<and> coverage_of [1, 2, 4] = Inr [Fin (1 / 4), Fin (1 / 2), Fin 1]
   \<and> sf_corr (Fin 1) = NInf
   \<and> fun_cy (\<lambda>l. Inr (Fin 0)) (3 / 10) (Fin 1) 1 = Inr PInf
   \<and> solve_hk_cy sample_minimizer [1 / 10, 2 / 10, 3 / 10] [1, 2, 4] (\<lambda>l. Inr NInf) 1
       = Inr [101 / 100, 104 / 100, 1]"
  using final_coverage_is_one [of "[1, 2, 4]" "\<lambda>l. Inr NInf" "[1 / 10, 2 / 10, 3 / 10]"
      sample_minimizer 1]
  by (simp add: coverage_of_def sf_corr_def np_sub_def np_scale_inf_def solve_hk_cy_def bindE_def
      fun_cy_def sample_minimizer_def)

text \<open>
  The claim as it was stated fails when the last loading is zero: numpy divides zero by
  zero to NaN, the last coverage is NaN and no logarithm of zero is taken.
\<close>

theorem final_coverage_zero_loading_counterexample:
  "coverage_of [0, 0, 0] = Inr [NaN, NaN, NaN]
   \<and> np_sub (Fin 1) NaN = NaN \<and> sf_corr NaN = NaN"
  by (simp add: coverage_of_def sf_corr_def np_sub_def)

section \<open>Properties of the dispersion constants\<close>

text \<open>
  C8 (as amended). For all property mappings that contain the polarizability and the
  magnetic susceptibility, with \<open>\<alpha>\<close> and \<open>\<kappa>\<close> the values multiplied by \<open>1e-27\<close>:
  when both susceptibilities and the sum \<open>\<alpha>_ads/\<kappa>_ads + \<alpha>_mat/\<kappa>_mat\<close> are not zero,
  \<open>_dispersion_from_dict\<close> returns exactly the pair
  \<open>(1.5 m\<^sub>e c\<^sup>2 \<alpha>_ads \<kappa>_ads, 6 m\<^sub>e c\<^sup>2 \<alpha>_ads \<alpha>_mat / (\<alpha>_ads/\<kappa>_ads + \<alpha>_mat/\<kappa>_mat))\<close>;
  otherwise it raises \<open>ZeroDivisionError\<close>, its one error path on such mappings.
\<close>

theorem dispersion_from_dict_value:
  assumes "map_of ads_dict ''polarizability'' = Some pa"
      and "map_of mat_dict ''polarizability'' = Some pm"
      and "map_of ads_dict ''magnetic_susceptibility'' = Some ma"
      and "map_of mat_dict ''magnetic_susceptibility'' = Some mm"
  shows "dispersion_from_dict c ads_dict mat_dict =
     (let alpha_ads = pa * (1 / 10 ^ 27); alpha_mat = pm * (1 / 10 ^ 27);
          kappa_ads = ma * (1 / 10 ^ 27); kappa_mat = mm * (1 / 10 ^ 27)
      in if kappa_ads = 0 \<or> kappa_mat = 0 \<or> alpha_ads / kappa_ads + alpha_mat / kappa_mat = 0
         then Inl ZeroDivisionError
         else Inr (1.5 * electron_mass c * speed_of_light c ^ 2 * alpha_ads * kappa_ads,
                   6 * electron_mass c * speed_of_light c ^ 2 * alpha_ads * alpha_mat /
                     (alpha_ads / kappa_ads + alpha_mat / kappa_mat)))"
  using assms
  by (simp add: dispersion_from_dict_def getitem_def bindE_def Let_def py_div_def
      kirkwood_muller_dispersion_mat_def kirkwood_muller_dispersion_ads_def)

theorem dispersion_from_dict_value_witness:
  "map_of nitrogen_props ''polarizability'' = Some (176 / 10 ^ 5)
   \<and> map_of carbon_props ''polarizability'' = Some (102 / 10 ^ 5)
   \<and> map_of nitrogen_props ''magnetic_susceptibility'' = Some (36 / 10 ^ 9)
   \<and> map_of carbon_props ''magnetic_susceptibility'' = Some (135 / 10 ^ 9)
   \<and> dispersion_from_dict sample_constants nitrogen_props carbon_props =
       Inr (15 / 10 * (91093837015 / 10 ^ 41) * 299792458 ^ 2 * (176 / 10 ^ 32) * (36 / 10 ^ 36),
            6 * (91093837015 / 10 ^ 41) * 299792458 ^ 2 * (176 / 10 ^ 32) * (102 / 10 ^ 32) /
              ((176 / 10 ^ 32) / (36 / 10 ^ 36) + (102 / 10 ^ 32) / (135 / 10 ^ 36)))"
  using dispersion_from_dict_value [of nitrogen_props "176 / 10 ^ 5" carbon_props "102 / 10 ^ 5"
      "36 / 10 ^ 9" "135 / 10 ^ 9" sample_constants]
  by (simp add: nitrogen_props_def carbon_props_def sample_constants_def)

text \<open>
  The claim as it was stated fails for a susceptibility of zero: the quotient
  \<open>p_ads / m_ads\<close> is a division of Python floats and raises.
\<close>

theorem dispersion_from_dict_zero_susceptibility_counterexample:
  "dispersion_from_dict sample_constants
       [(''polarizability'', 176 / 10 ^ 5), (''magnetic_susceptibility'', 0)] carbon_props
     = Inl ZeroDivisionError"
  by (simp add: dispersion_from_dict_def getitem_def bindE_def Let_def py_div_def
      kirkwood_muller_dispersion_mat_def kirkwood_muller_dispersion_ads_def carbon_props_def)

section \<open>Properties of the kernels\<close>

lemma np_mask_Inr:
  "np_mask xs sel = Inr ys \<longleftrightarrow> length sel = length xs \<and> ys = map fst (filter snd (zip xs sel))"
  by (auto simp: np_mask_def)

lemma mask_by_predicate:
  "map fst (filter snd (zip ds (map P ds))) = filter P ds"
  by (induction ds) simp_all

lemma mask_zip3:
  assumes "length as = length ds" and "length vs = length ds"
  shows "zip (map fst (filter snd (zip as (map P ds))))
           (zip (filter P ds) (map fst (filter snd (zip vs (map P ds)))))
         = filter (\<lambda>(a, x, y). P x) (zip as (zip ds vs))"
  using assms(1) assms(2)[symmetric]
  by (induction as ds vs rule: list_induct3) simp_all

lemma mask_length:
  "length xs = length ds \<Longrightarrow>
     length (map fst (filter snd (zip xs (map P ds)))) = length (filter P ds)"
proof (induction xs ds rule: list_induct2)
  case Nil
  then show ?case by simp
next
  case (Cons x xs d ds)
  then show ?case by simp
qed

text \<open>
  The definitions that evaluate a kernel on the sample data.
\<close>

lemmas kernel_eval =
  psd_horvath_kawazoe_def psd_horvath_kawazoe_ry_def check_properties_def hk_constants_def
  pore_widths_of_def calc_pore_distribution_def np_mask_def np_divide_def np_diff_def in_band_def
  solve_widths_def solve_hk_def solve_hk_cy_def coverage_of_def fun_hk_def fun_cy_def sf_corr_def
  dispersion_from_dict_def kirkwood_muller_dispersion_ads_def kirkwood_muller_dispersion_mat_def
  N_over_RT_def getitem_def py_div_def bindE_def HK_KEYS_def np_sub_def np_scale_inf_def
  sample_constants_def nitrogen_props_def carbon_props_def sample_minimizer_def
  sample_potentials_def py_repr_list_def Let_def

text \<open>
  C2 (as amended). The differentiated points are the midpoints of consecutive widths, the
  quotients of the differences of volume and width, and the volumes from the second on.
  \<open>psd_horvath_kawazoe\<close> (HK and HK-CY) returns exactly those points whose
  pore-distribution value \<open>v\<close> itself, not its absolute value, satisfies
  \<open>1e-3 < v < 1e3\<close> with both bounds excluded, in their order, and drops all others;
  \<open>psd_horvath_kawazoe_ry\<close> (RY and RY-CY) returns every differentiated point.
\<close>

theorem hk_filters_ry_does_not:
  "(psd_horvath_kawazoe ms pm c pressure loading temperature pore_geometry
        adsorbate_properties material_properties use_cy = Inr (w, d, v) \<longrightarrow>
      (\<exists>s widths avg pore_dist vol.
          hk_constants c temperature adsorbate_properties material_properties = Inr s
        \<and> pore_widths_of ms pm HK use_cy pore_geometry s pressure loading = Inr widths
        \<and> calc_pore_distribution adsorbate_properties widths loading = Inr (avg, pore_dist, vol)
        \<and> length avg = length pore_dist \<and> length (tl vol) = length pore_dist
        \<and> zip w (zip d v) =
            filter (\<lambda>(a, x, y). np_less (Fin (1 / 1000)) x \<and> np_less x (Fin 1000))
              (zip avg (zip pore_dist (tl vol)))
        \<and> d = filter (\<lambda>x. np_less (Fin (1 / 1000)) x \<and> np_less x (Fin 1000)) pore_dist
        \<and> length w = length d \<and> length v = length d))
   \<and> (psd_horvath_kawazoe_ry ms pm c pressure loading temperature pore_geometry
        adsorbate_properties material_properties use_cy = Inr (w', d', v') \<longrightarrow>
      (\<exists>s widths vol.
          hk_constants c temperature adsorbate_properties material_properties = Inr s
        \<and> pore_widths_of ms pm RY use_cy pore_geometry s pressure loading = Inr widths
        \<and> calc_pore_distribution adsorbate_properties widths loading = Inr (w', d', vol)
        \<and> v' = tl vol))"
proof (intro conjI impI)
  assume "psd_horvath_kawazoe ms pm c pressure loading temperature pore_geometry
        adsorbate_properties material_properties use_cy = Inr (w, d, v)"
  then obtain s widths t where
      s: "hk_constants c temperature adsorbate_properties material_properties = Inr s"
    and pw: "pore_widths_of ms pm HK use_cy pore_geometry s pressure loading = Inr widths"
    and t: "calc_pore_distribution adsorbate_properties widths loading = Inr t"
    and r: "(case t of (avg_pore_widths, pore_dist, volume_adsorbed) \<Rightarrow>
         let out = map in_band pore_dist in
         bindE (np_mask avg_pore_widths out) (\<lambda>r1.
         bindE (np_mask pore_dist out) (\<lambda>r2.
         bindE (np_mask (tl volume_adsorbed) out) (\<lambda>r3.
           Inr (r1, r2, r3))))) = Inr (w, d, v)"
    unfolding psd_horvath_kawazoe_def
    by (elim bindE_InrE) (rule that; assumption)
  obtain avg pore_dist vol where t3: "t = (avg, pore_dist, vol)"
    by (cases t) auto
  from r obtain m1: "np_mask avg (map in_band pore_dist) = Inr w"
    and m2: "np_mask pore_dist (map in_band pore_dist) = Inr d"
    and m3: "np_mask (tl vol) (map in_band pore_dist) = Inr v"
    unfolding t3 by (auto simp: Let_def elim!: bindE_InrE)
  note pd = t[unfolded t3]
  from m1 m2 m3 have la: "length avg = length pore_dist" and lv: "length (tl vol) = length pore_dist"
    and w: "w = map fst (filter snd (zip avg (map in_band pore_dist)))"
    and d: "d = filter in_band pore_dist"
    and v: "v = map fst (filter snd (zip (tl vol) (map in_band pore_dist)))"
    by (simp_all add: np_mask_Inr mask_by_predicate)
  have z: "zip w (zip d v) = filter (\<lambda>(a, x, y). in_band x) (zip avg (zip pore_dist (tl vol)))"
    unfolding w d v using la lv by (rule mask_zip3)
  have lw: "length w = length d"
    unfolding w d using la by (rule mask_length)
  have lv': "length v = length d"
    unfolding v d using lv by (rule mask_length)
  show "\<exists>s widths avg pore_dist vol.
          hk_constants c temperature adsorbate_properties material_properties = Inr s
        \<and> pore_widths_of ms pm HK use_cy pore_geometry s pressure loading = Inr widths
        \<and> calc_pore_distribution adsorbate_properties widths loading = Inr (avg, pore_dist, vol)
        \<and> length avg = length pore_dist \<and> length (tl vol) = length pore_dist
        \<and> zip w (zip d v) =
            filter (\<lambda>(a, x, y). np_less (Fin (1 / 1000)) x \<and> np_less x (Fin 1000))
              (zip avg (zip pore_dist (tl vol)))
        \<and> d = filter (\<lambda>x. np_less (Fin (1 / 1000)) x \<and> np_less x (Fin 1000)) pore_dist
        \<and> length w = length d \<and> length v = length d"
    using s pw pd la lv z d lw lv' unfolding in_band_def by blast
next
  assume "psd_horvath_kawazoe_ry ms pm c pressure loading temperature pore_geometry
        adsorbate_properties material_properties use_cy = Inr (w', d', v')"
  then obtain s widths t where
      s: "hk_constants c temperature adsorbate_properties material_properties = Inr s"
    and pw: "pore_widths_of ms pm RY use_cy pore_geometry s pressure loading = Inr widths"
    and t: "calc_pore_distribution adsorbate_properties widths loading = Inr t"
    and r: "(case t of (avg_pore_widths, pore_dist, volume_adsorbed) \<Rightarrow>
         (Inr (avg_pore_widths, pore_dist, tl volume_adsorbed)
            :: py_error + real list \<times> npfloat list \<times> npfloat list)) = Inr (w', d', v')"
    unfolding psd_horvath_kawazoe_ry_def
    by (elim bindE_InrE) (rule that; assumption)
  obtain avg pore_dist vol where t3: "t = (avg, pore_dist, vol)"
    by (cases t) auto
  from r have "avg = w'" "pore_dist = d'" "v' = tl vol"
    unfolding t3 by simp_all
  with s pw t t3
  show "\<exists>s widths vol.
          hk_constants c temperature adsorbate_properties material_properties = Inr s
        \<and> pore_widths_of ms pm RY use_cy pore_geometry s pressure loading = Inr widths
        \<and> calc_pore_distribution adsorbate_properties widths loading = Inr (w', d', vol)
        \<and> v' = tl vol"
    by blast
qed


text \<open>
  Four points whose last step adds no volume: the HK kernel drops the third differentiated
  point (its value is 0), the RY kernel keeps it.
\<close>

theorem hk_filters_ry_does_not_witness:
  "psd_horvath_kawazoe sample_minimizer sample_potentials sample_constants
       [1 / 10, 2 / 10, 3 / 10, 4 / 10] [1, 2, 4, 4] 77 ''slit'' nitrogen_props carbon_props False
     = Inr ([13 / 40, 73 / 200], [Fin (7 / 6), Fin (7 / 5)], [Fin (7 / 100), Fin (7 / 50)])
   \<and> psd_horvath_kawazoe_ry sample_minimizer sample_potentials sample_constants
       [1 / 10, 2 / 10, 3 / 10, 4 / 10] [1, 2, 4, 4] 77 ''slit'' nitrogen_props carbon_props False
     = Inr ([13 / 40, 73 / 200, 17 / 40], [Fin (7 / 6), Fin (7 / 5), Fin 0],
            [Fin (7 / 100), Fin (7 / 50), Fin (7 / 50)])
   \<and> in_band (Fin (7 / 6)) \<and> in_band (Fin (7 / 5)) \<and> \<not> in_band (Fin 0)"
  using hk_filters_ry_does_not [of sample_minimizer sample_potentials sample_constants
      "[1 / 10, 2 / 10, 3 / 10, 4 / 10]" "[1, 2, 4, 4]" 77 "''slit''" nitrogen_props carbon_props
      False "[13 / 40, 73 / 200]" "[Fin (7 / 6), Fin (7 / 5)]" "[Fin (7 / 100), Fin (7 / 50)]"
      "[13 / 40, 73 / 200, 17 / 40]" "[Fin (7 / 6), Fin (7 / 5), Fin 0]"
      "[Fin (7 / 100), Fin (7 / 50), Fin (7 / 50)]"]
  by (simp add: kernel_eval)

text \<open>
  The claim as it was stated fails on a falling loading: both differentiated points have a
  value whose absolute value lies inside \<open>[1e-3, 1e3]\<close>, the RY kernel returns them, and the
  HK kernel drops them, because its mask compares the signed value. It also drops a value
  that equals a bound.
\<close>

theorem hk_filter_signed_counterexample:
  "psd_horvath_kawazoe_ry sample_minimizer sample_potentials sample_constants
       [1 / 10, 2 / 10, 3 / 10] [4, 2, 1] 77 ''slit'' nitrogen_props carbon_props False
     = Inr ([13 / 40, 73 / 200], [Fin (- (7 / 3)), Fin (- (7 / 10))],
            [Fin (7 / 100), Fin (7 / 200)])
   \<and> 1 / 1000 \<le> \<bar>- (7 / 3) :: real\<bar> \<and> \<bar>- (7 / 3) :: real\<bar> \<le> 1000
   \<and> 1 / 1000 \<le> \<bar>- (7 / 10) :: real\<bar> \<and> \<bar>- (7 / 10) :: real\<bar> \<le> 1000
   \<and> psd_horvath_kawazoe sample_minimizer sample_potentials sample_constants
       [1 / 10, 2 / 10, 3 / 10] [4, 2, 1] 77 ''slit'' nitrogen_props carbon_props False
     = Inr ([], [], [])
   \<and> in_band (Fin (- (7 / 3))) = False
   \<and> in_band (Fin (1 / 1000)) = False"
  by (simp add: kernel_eval)

text \<open>
  C3. The claim is that both kernels raise \<open>ParameterError\<close> at entry when a required
  property key is absent. The code computes its list \<open>missing\<close> from the keys that are
  present and not required, so an absent key passes the check: with an empty material
  mapping both kernels get past it and raise \<open>KeyError\<close> at the first subscript of the
  material; an adsorbate without \<open>liquid_density\<close> is only found out after the widths have
  been solved. What the check does reject is a mapping with an additional key, which it
  reports as missing.
\<close>

theorem missing_key_is_not_detected:
  "check_properties nitrogen_props [] = Inr ()
   \<and> psd_horvath_kawazoe sample_minimizer sample_potentials sample_constants
       [1 / 10, 2 / 10, 3 / 10] [1, 2, 4] 77 ''slit'' nitrogen_props [] False
     = Inl (KeyError ''molecular_diameter'')
   \<and> psd_horvath_kawazoe_ry sample_minimizer sample_potentials sample_constants
       [1 / 10, 2 / 10, 3 / 10] [1, 2, 4] 77 ''slit'' nitrogen_props [] False
     = Inl (KeyError ''molecular_diameter'')
   \<and> psd_horvath_kawazoe sample_minimizer sample_potentials sample_constants
       [1 / 10, 2 / 10, 3 / 10] [1, 2, 4] 77 ''slit''
       (filter (\<lambda>kv. fst kv \<noteq> ''liquid_density'') nitrogen_props) carbon_props False
     = Inl (KeyError ''liquid_density'')
   \<and> check_properties nitrogen_props (carbon_props @ [(''name'', 0)])
     = Inl (ParameterError
         [''Adsorbent properties dictionary is missing parameters: ['name'].''])"
  by (simp add: kernel_eval)

section \<open>Properties of the driver\<close>

text \<open>The definitions that evaluate the driver on the sample data.\<close>

lemmas driver_eval =
  psd_microporous_def parameter_checks_def MICRO_PSD_MODELS_def PORE_GEOMETRIES_def
  adsorbate_model_of_def branch_data_def pressure_window_def window_indices_def searchsorted_def
  slice_def dispatch_kernel_def sample_env_def sample_isotherm_def nitrogen_def
  bsearch_left.simps

lemma sublist_in_tail: "sublist xs ys \<Longrightarrow> sublist xs (zs @ ys)"
  unfolding sublist_def by (metis append.assoc)

lemma models_named:
  "alt \<in> set MICRO_PSD_MODELS \<Longrightarrow> sublist alt ''['HK', 'HK-CY', 'RY', 'RY-CY']''"
  unfolding MICRO_PSD_MODELS_def
  by (elim disjE | simp only: set_simps insert_iff empty_iff)+ (simp_all add: sublist_code)

lemma geometries_named:
  "alt \<in> set PORE_GEOMETRIES \<Longrightarrow> sublist alt ''['slit', 'cylinder', 'sphere']''"
  unfolding PORE_GEOMETRIES_def
  by (elim disjE | simp only: set_simps insert_iff empty_iff)+ (simp_all add: sublist_code)

lemma branches_named:
  "alt \<in> {''ads'', ''des''} \<Longrightarrow> sublist alt (''Select either 'ads' or 'des'' @ [CHR 0x27])"
  by (elim disjE | simp only: insert_iff empty_iff)+ (simp_all add: sublist_code)

lemma repr_models: "py_repr_list MICRO_PSD_MODELS = ''['HK', 'HK-CY', 'RY', 'RY-CY']''"
  by (simp add: py_repr_list_def MICRO_PSD_MODELS_def)

lemma repr_geometries: "py_repr_list PORE_GEOMETRIES = ''['slit', 'cylinder', 'sphere']''"
  by (simp add: py_repr_list_def PORE_GEOMETRIES_def)

lemma parameter_checks_invalid:
  assumes "psd_model \<notin> Some ` set MICRO_PSD_MODELS \<or> pore_geometry \<notin> set PORE_GEOMETRIES
         \<or> branch \<notin> {''ads'', ''des''}"
  shows "\<exists>err. parameter_checks psd_model pore_geometry branch = Inl err"
proof (cases psd_model)
  case None
  then show ?thesis by (simp add: parameter_checks_def)
next
  case (Some m)
  show ?thesis
  proof (cases "m \<in> set MICRO_PSD_MODELS")
    case False
    with Some show ?thesis by (simp add: parameter_checks_def)
  next
    case True
    with Some assms have "pore_geometry \<notin> set PORE_GEOMETRIES \<or> branch \<notin> {''ads'', ''des''}"
      by auto
    with Some True show ?thesis by (auto simp: parameter_checks_def)
  qed
qed

lemma psd_microporous_checks_fail:
  "parameter_checks psd_model pore_geometry branch = Inl err \<Longrightarrow>
     psd_microporous e isoth psd_model pore_geometry branch material_model adsorbate_model p_limits
       = Inl err"
  by (simp add: psd_microporous_def bindE_def)

text \<open>
  C4 (as amended). \<open>psd_microporous\<close> raises \<open>ParameterError\<close> whenever \<open>psd_model\<close> is not
  one of HK, HK-CY, RY, RY-CY, or \<open>pore_geometry\<close> is not one of slit, cylinder, sphere, or
  \<open>branch\<close> is not one of ads, des. The outcome is the same whatever the isotherm, the
  environment and the remaining arguments are: nothing has been read when it is raised.
  For a model, geometry or branch given as a string the message names the first invalid
  value (in that order) and the allowed alternatives; for a model that is \<open>None\<close> the
  message asks for a model to be specified and gives "HK" as an example.
\<close>

theorem invalid_parameters_raise:
  "(psd_model = None \<longrightarrow>
      psd_microporous e isoth psd_model pore_geometry branch material_model adsorbate_model p_limits
        = Inl (ParameterError
            [''Specify a model to generate the pore size distribution e.g. psd_model=''
               @ [CHR 0x22] @ ''HK'' @ [CHR 0x22]]))
   \<and> (\<forall>m. psd_model = Some m \<and> m \<notin> set MICRO_PSD_MODELS \<longrightarrow>
        (\<exists>msg. psd_microporous e isoth psd_model pore_geometry branch material_model
                  adsorbate_model p_limits = Inl (ParameterError [msg])
           \<and> msg = ''Model '' @ m @ '' not an option for psd. Available models are ''
                     @ ''['HK', 'HK-CY', 'RY', 'RY-CY']''
           \<and> sublist m msg \<and> (\<forall>alt \<in> set MICRO_PSD_MODELS. sublist alt msg)))
   \<and> (\<forall>m. psd_model = Some m \<and> m \<in> set MICRO_PSD_MODELS
            \<and> pore_geometry \<notin> set PORE_GEOMETRIES \<longrightarrow>
        (\<exists>msg. psd_microporous e isoth psd_model pore_geometry branch material_model
                  adsorbate_model p_limits = Inl (ParameterError [msg])
           \<and> msg = ''Geometry '' @ pore_geometry
                     @ '' not an option for pore size distribution. Available geometries are ''
                     @ ''['slit', 'cylinder', 'sphere']''
           \<and> sublist pore_geometry msg \<and> (\<forall>alt \<in> set PORE_GEOMETRIES. sublist alt msg)))
   \<and> (\<forall>m. psd_model = Some m \<and> m \<in> set MICRO_PSD_MODELS
            \<and> pore_geometry \<in> set PORE_GEOMETRIES \<and> branch \<notin> {''ads'', ''des''} \<longrightarrow>
        (\<exists>msg1 msg2. psd_microporous e isoth psd_model pore_geometry branch material_model
                  adsorbate_model p_limits = Inl (ParameterError [msg1, msg2])
           \<and> msg1 = ''Branch '' @ [CHR 0x27] @ branch @ [CHR 0x27] @ '' not an option for PSD.''
           \<and> msg2 = ''Select either 'ads' or 'des'' @ [CHR 0x27]
           \<and> sublist branch msg1 \<and> (\<forall>alt \<in> {''ads'', ''des''}. sublist alt msg2)))
   \<and> ((psd_model \<notin> Some ` set MICRO_PSD_MODELS \<or> pore_geometry \<notin> set PORE_GEOMETRIES
         \<or> branch \<notin> {''ads'', ''des''}) \<longrightarrow>
        psd_microporous e isoth psd_model pore_geometry branch material_model adsorbate_model p_limits
        = psd_microporous e' isoth' psd_model pore_geometry branch material_model' adsorbate_model'
            p_limits')"
proof (intro conjI allI impI)
  assume "psd_model = None"
  then show "psd_microporous e isoth psd_model pore_geometry branch material_model adsorbate_model
        p_limits
        = Inl (ParameterError
            [''Specify a model to generate the pore size distribution e.g. psd_model=''
               @ [CHR 0x22] @ ''HK'' @ [CHR 0x22]])"
    by (intro psd_microporous_checks_fail) (simp add: parameter_checks_def)
next
  fix m
  let ?msg = "''Model '' @ m @ '' not an option for psd. Available models are ''
                     @ ''['HK', 'HK-CY', 'RY', 'RY-CY']''"
  assume a: "psd_model = Some m \<and> m \<notin> set MICRO_PSD_MODELS"
  then have "parameter_checks psd_model pore_geometry branch = Inl (ParameterError [?msg])"
    by (simp add: parameter_checks_def repr_models)
  then have r: "psd_microporous e isoth psd_model pore_geometry branch material_model
                  adsorbate_model p_limits = Inl (ParameterError [?msg])"
    by (rule psd_microporous_checks_fail)
  have n: "sublist m ?msg"
    by (rule sublist_appendI)
  have alts: "\<forall>alt \<in> set MICRO_PSD_MODELS. sublist alt ?msg"
    by (intro ballI sublist_in_tail models_named)
  from r n alts
  show "\<exists>msg. psd_microporous e isoth psd_model pore_geometry branch material_model
                  adsorbate_model p_limits = Inl (ParameterError [msg])
           \<and> msg = ?msg \<and> sublist m msg \<and> (\<forall>alt \<in> set MICRO_PSD_MODELS. sublist alt msg)"
    by blast
next
  fix m
  let ?msg = "''Geometry '' @ pore_geometry
                     @ '' not an option for pore size distribution. Available geometries are ''
                     @ ''['slit', 'cylinder', 'sphere']''"
  assume a: "psd_model = Some m \<and> m \<in> set MICRO_PSD_MODELS
            \<and> pore_geometry \<notin> set PORE_GEOMETRIES"
  then have "parameter_checks psd_model pore_geometry branch = Inl (ParameterError [?msg])"
    by (simp add: parameter_checks_def repr_geometries)
  then have r: "psd_microporous e isoth psd_model pore_geometry branch material_model
                  adsorbate_model p_limits = Inl (ParameterError [?msg])"
    by (rule psd_microporous_checks_fail)
  have n: "sublist pore_geometry ?msg"
    by (rule sublist_appendI)
  have alts: "\<forall>alt \<in> set PORE_GEOMETRIES. sublist alt ?msg"
    by (intro ballI sublist_in_tail geometries_named)
  from r n alts
  show "\<exists>msg. psd_microporous e isoth psd_model pore_geometry branch material_model
                  adsorbate_model p_limits = Inl (ParameterError [msg])
           \<and> msg = ?msg \<and> sublist pore_geometry msg
           \<and> (\<forall>alt \<in> set PORE_GEOMETRIES. sublist alt msg)"
    by blast
next
  fix m
  let ?msg1 = "''Branch '' @ [CHR 0x27] @ branch @ [CHR 0x27] @ '' not an option for PSD.''"
  let ?msg2 = "''Select either 'ads' or 'des'' @ [CHR 0x27]"
  assume a: "psd_model = Some m \<and> m \<in> set MICRO_PSD_MODELS
            \<and> pore_geometry \<in> set PORE_GEOMETRIES \<and> branch \<notin> {''ads'', ''des''}"
  then have "parameter_checks psd_model pore_geometry branch = Inl (ParameterError [?msg1, ?msg2])"
    by (simp add: parameter_checks_def)
  then have r: "psd_microporous e isoth psd_model pore_geometry branch material_model
                  adsorbate_model p_limits = Inl (ParameterError [?msg1, ?msg2])"
    by (rule psd_microporous_checks_fail)
  have "sublist branch ([CHR 0x27] @ branch @ [CHR 0x27] @ '' not an option for PSD.'')"
    by (rule sublist_appendI)
  then have n: "sublist branch ?msg1"
    by (rule sublist_in_tail)
  have alts: "\<forall>alt \<in> {''ads'', ''des''}. sublist alt ?msg2"
    by (intro ballI branches_named)
  from r n alts
  show "\<exists>msg1 msg2. psd_microporous e isoth psd_model pore_geometry branch material_model
                  adsorbate_model p_limits = Inl (ParameterError [msg1, msg2])
           \<and> msg1 = ?msg1 \<and> msg2 = ?msg2
           \<and> sublist branch msg1 \<and> (\<forall>alt \<in> {''ads'', ''des''}. sublist alt msg2)"
    by blast
next
  assume "psd_model \<notin> Some ` set MICRO_PSD_MODELS \<or> pore_geometry \<notin> set PORE_GEOMETRIES
         \<or> branch \<notin> {''ads'', ''des''}"
  then have "\<exists>err. parameter_checks psd_model pore_geometry branch = Inl err"
    by (rule parameter_checks_invalid)
  then obtain err where "parameter_checks psd_model pore_geometry branch = Inl err" ..
  then show "psd_microporous e isoth psd_model pore_geometry branch material_model adsorbate_model
          p_limits
        = psd_microporous e' isoth' psd_model pore_geometry branch material_model' adsorbate_model'
            p_limits'"
    by (simp add: psd_microporous_checks_fail)
qed


theorem invalid_parameters_raise_witness:
  "psd_microporous sample_env sample_isotherm (Some ''XX'') ''slit'' ''ads'' (Inl ''Carbon(HK)'')
       None None
     = Inl (ParameterError
         [''Model XX not an option for psd. Available models are ['HK', 'HK-CY', 'RY', 'RY-CY']''])
   \<and> psd_microporous sample_env sample_isotherm (Some ''HK'') ''cube'' ''ads'' (Inl ''Carbon(HK)'')
       None None
     = Inl (ParameterError
         [''Geometry cube not an option for pore size distribution. ''
            @ ''Available geometries are ['slit', 'cylinder', 'sphere']''])
   \<and> psd_microporous sample_env sample_isotherm (Some ''HK'') ''slit'' ''both'' (Inl ''Carbon(HK)'')
       None None
     = Inl (ParameterError
         [''Branch 'both' not an option for PSD.'', ''Select either 'ads' or 'des'' @ [CHR 0x27]])"
  using invalid_parameters_raise [of "Some ''XX''" sample_env sample_isotherm "''slit''" "''ads''"
      "Inl ''Carbon(HK)''" None None]
    invalid_parameters_raise [of "Some ''HK''" sample_env sample_isotherm "''cube''" "''ads''"
      "Inl ''Carbon(HK)''" None None]
    invalid_parameters_raise [of "Some ''HK''" sample_env sample_isotherm "''slit''" "''both''"
      "Inl ''Carbon(HK)''" None None]
  by (simp add: MICRO_PSD_MODELS_def PORE_GEOMETRIES_def)

text \<open>
  The claim as it was stated fails for \<open>psd_model=None\<close>: the message of that check names
  neither the value nor the set of allowed models.
\<close>

theorem model_none_message_counterexample:
  "psd_microporous sample_env sample_isotherm None ''slit'' ''ads'' (Inl ''Carbon(HK)'') None None
     = Inl (ParameterError
         [''Specify a model to generate the pore size distribution e.g. psd_model=''
            @ [CHR 0x22] @ ''HK'' @ [CHR 0x22]])
   \<and> \<not> sublist ''None''
         (''Specify a model to generate the pore size distribution e.g. psd_model=''
            @ [CHR 0x22] @ ''HK'' @ [CHR 0x22])
   \<and> \<not> sublist ''RY''
         (''Specify a model to generate the pore size distribution e.g. psd_model=''
            @ [CHR 0x22] @ ''HK'' @ [CHR 0x22])
   \<and> \<not> sublist ''HK-CY''
         (''Specify a model to generate the pore size distribution e.g. psd_model=''
            @ [CHR 0x22] @ ''HK'' @ [CHR 0x22])"
  by (simp add: psd_microporous_def parameter_checks_def bindE_def sublist_code)

section \<open>The pressure window\<close>

text \<open>
  The binary search is unfolded by hand in the proofs below, one step at a time.
\<close>

declare bsearch_left.simps [simp del]

text \<open>The search stays inside the interval it was given.\<close>

lemma bsearch_left_bounds:
  "lo \<le> hi \<Longrightarrow> lo \<le> bsearch_left a v lo hi \<and> bsearch_left a v lo hi \<le> hi"
proof (induction a v lo hi rule: bsearch_left.induct)
  case (1 a v lo hi)
  show ?case
  proof (cases "lo < hi")
    case False
    with "1.prems" show ?thesis
      by (subst bsearch_left.simps, subst bsearch_left.simps) simp
  next
    case True
    define mid where "mid = lo + (hi - lo) div 2"
    have m: "lo \<le> mid" "mid < hi"
      using True by (simp_all add: mid_def)
    show ?thesis
    proof (cases "a ! mid < v")
      case lt: True
      have "mid + 1 \<le> bsearch_left a v (mid + 1) hi \<and> bsearch_left a v (mid + 1) hi \<le> hi"
        using "1.IH"(1)[OF True mid_def lt] m by simp
      moreover have "bsearch_left a v lo hi = bsearch_left a v (mid + 1) hi"
        using True lt by (subst bsearch_left.simps) (simp add: mid_def Let_def)
      ultimately show ?thesis using m by simp
    next
      case ge: False
      have "lo \<le> bsearch_left a v lo mid \<and> bsearch_left a v lo mid \<le> mid"
        using "1.IH"(2)[OF True mid_def ge] m by simp
      moreover have "bsearch_left a v lo hi = bsearch_left a v lo mid"
        using True ge by (subst bsearch_left.simps) (simp add: mid_def Let_def)
      ultimately show ?thesis using m by simp
    qed
  qed
qed

lemma searchsorted_le_length: "searchsorted a v \<le> length a"
  using bsearch_left_bounds [of 0 "length a" a v] by (simp add: searchsorted_def)

text \<open>
  On a sorted array the elements below \<open>v\<close> are a prefix, and the search finds its length.
\<close>

lemma sorted_below_iff:
  assumes "sorted a" and "i < length a"
  shows "a ! i < v \<longleftrightarrow> i < length (takeWhile (\<lambda>x. x < v) a)"
proof
  assume lt: "a ! i < v"
  show "i < length (takeWhile (\<lambda>x. x < v) a)"
  proof (rule ccontr)
    let ?k = "length (takeWhile (\<lambda>x. x < v) a)"
    assume "\<not> i < ?k"
    then have ki: "?k \<le> i" by simp
    with assms(2) have "?k < length a" by simp
    then have "\<not> a ! ?k < v"
      by (rule nth_length_takeWhile)
    moreover have "a ! ?k \<le> a ! i"
      using assms ki by (simp add: sorted_nth_mono)
    ultimately show False using lt by simp
  qed
next
  assume il: "i < length (takeWhile (\<lambda>x. x < v) a)"
  then have "takeWhile (\<lambda>x. x < v) a ! i \<in> set (takeWhile (\<lambda>x. x < v) a)"
    by (rule nth_mem)
  moreover have "takeWhile (\<lambda>x. x < v) a ! i = a ! i"
    using il by (rule takeWhile_nth)
  ultimately have "a ! i \<in> set (takeWhile (\<lambda>x. x < v) a)"
    by simp
  then show "a ! i < v"
    by (rule set_takeWhileD[THEN conjunct2])
qed

lemma bsearch_left_sorted:
  "sorted a \<Longrightarrow> lo \<le> length (takeWhile (\<lambda>x. x < v) a)
     \<Longrightarrow> length (takeWhile (\<lambda>x. x < v) a) \<le> hi
     \<Longrightarrow> hi \<le> length a \<Longrightarrow> bsearch_left a v lo hi = length (takeWhile (\<lambda>x. x < v) a)"
proof (induction a v lo hi rule: bsearch_left.induct)
  case (1 a v lo hi)
  let ?k = "length (takeWhile (\<lambda>x. x < v) a)"
  note assms = "1.prems"(1)
  show ?case
  proof (cases "lo < hi")
    case False
    with "1.prems" show ?thesis
      by (subst bsearch_left.simps) simp
  next
    case True
    define mid where "mid = lo + (hi - lo) div 2"
    have m: "lo \<le> mid" "mid < hi"
      using True by (simp_all add: mid_def)
    with "1.prems" have ml: "mid < length a" by simp
    show ?thesis
    proof (cases "a ! mid < v")
      case lt: True
      then have "mid < ?k"
        using sorted_below_iff[OF assms ml] by simp
      then have "bsearch_left a v (mid + 1) hi = ?k"
        using "1.IH"(1)[OF True mid_def lt] "1.prems" by simp
      moreover have "bsearch_left a v lo hi = bsearch_left a v (mid + 1) hi"
        using True lt by (subst bsearch_left.simps) (simp add: mid_def Let_def)
      ultimately show ?thesis by simp
    next
      case ge: False
      then have "?k \<le> mid"
        using sorted_below_iff[OF assms ml] by simp
      then have "bsearch_left a v lo mid = ?k"
        using "1.IH"(2)[OF True mid_def ge] "1.prems" m by simp
      moreover have "bsearch_left a v lo hi = bsearch_left a v lo mid"
        using True ge by (subst bsearch_left.simps) (simp add: mid_def Let_def)
      ultimately show ?thesis by simp
    qed
  qed
qed

lemma searchsorted_sorted:
  "sorted a \<Longrightarrow> searchsorted a v = length (takeWhile (\<lambda>x. x < v) a)"
  unfolding searchsorted_def
  by (rule bsearch_left_sorted) (simp_all add: length_takeWhile_le)

lemma window_indices_le:
  "window_indices p_limits pressure = (minimum, maximum) \<Longrightarrow> maximum \<le> length pressure"
  by (auto simp: window_indices_def Let_def searchsorted_le_length split: option.splits if_splits)

lemma slice_length: "j \<le> length xs \<Longrightarrow> length (slice xs i j) = j - i"
  by (simp add: slice_def)



text \<open>
  C5. \<open>psd_microporous\<close> raises \<open>CalculationError\<close> whenever fewer than 3 points remain
  in the window: in a call that has passed the parameter checks, resolved the adsorbate
  and the material and read the branch, if the slice \<open>pressure[minimum:maximum]\<close> the
  limits select has fewer than 3 points, the outcome is the \<open>CalculationError\<close>. When
  \<open>p_limits\<close> is not given the window has no lower bound and the upper bound 0.2: on a
  sorted pressure series it consists of the leading points below 0.2.
\<close>

theorem too_few_points_raise:
  assumes "parameter_checks psd_model pore_geometry branch = Inr m"
      and "adsorbate_model_of isoth adsorbate_model = Inr ads"
      and "get_hk_model e material_model = Inr mat"
      and "branch_data isoth branch = Inr (loading, pressure)"
      and "window_indices p_limits pressure = (minimum, maximum)"
      and "length (slice pressure minimum maximum) < 3"
  shows "psd_microporous e isoth psd_model pore_geometry branch material_model adsorbate_model
           p_limits
         = Inl (CalculationError
             [''The isotherm does not have enough points (at least 3) in the selected region.''])
       \<and> window_indices None pressure = (0, searchsorted pressure (2 / 10))
       \<and> (sorted pressure \<longrightarrow>
            slice pressure 0 (searchsorted pressure (2 / 10))
              = takeWhile (\<lambda>p. p < 2 / 10) pressure)"
proof (intro conjI impI)
  have "maximum \<le> length pressure"
    using assms(5) by (rule window_indices_le)
  then have "length (slice pressure minimum maximum) = maximum - minimum"
    by (rule slice_length)
  with assms(6) have "int maximum - int minimum < 3"
    by linarith
  then have "pressure_window p_limits pressure loading
      = Inl (CalculationError
             [''The isotherm does not have enough points (at least 3) in the selected region.''])"
    using assms(5) by (simp add: pressure_window_def)
  then show "psd_microporous e isoth psd_model pore_geometry branch material_model adsorbate_model
           p_limits
         = Inl (CalculationError
             [''The isotherm does not have enough points (at least 3) in the selected region.''])"
    using assms(1-4) by (simp add: psd_microporous_def bindE_def)
  show "window_indices None pressure = (0, searchsorted pressure (2 / 10))"
    by (simp add: window_indices_def)
next
  assume "sorted pressure"
  then have "searchsorted pressure (2 / 10) = length (takeWhile (\<lambda>p. p < 2 / 10) pressure)"
    by (rule searchsorted_sorted)
  then show "slice pressure 0 (searchsorted pressure (2 / 10))
              = takeWhile (\<lambda>p. p < 2 / 10) pressure"
    by (simp add: slice_def takeWhile_eq_take[symmetric])
qed


text \<open>
  The limits \<open>(0.04, 0.12)\<close> leave two of the five points of the sample isotherm.
\<close>

theorem too_few_points_raise_witness:
  "parameter_checks (Some ''HK'') ''slit'' ''ads'' = Inr ''HK''
   \<and> branch_data sample_isotherm ''ads''
       = Inr ([1, 2, 4, 4, 5], [1 / 100, 5 / 100, 10 / 100, 15 / 100, 30 / 100])
   \<and> window_indices (Some (Some (4 / 100), Some (12 / 100)))
         [1 / 100, 5 / 100, 10 / 100, 15 / 100, 30 / 100] = (1, 3)
   \<and> slice [1 / 100, 5 / 100, 10 / 100, 15 / 100, 30 / 100 :: real] 1 3 = [5 / 100, 10 / 100]
   \<and> psd_microporous sample_env sample_isotherm (Some ''HK'') ''slit'' ''ads'' (Inl ''Carbon(HK)'')
         None (Some (Some (4 / 100), Some (12 / 100)))
       = Inl (CalculationError
             [''The isotherm does not have enough points (at least 3) in the selected region.''])
   \<and> slice [1 / 100, 5 / 100, 10 / 100, 15 / 100, 30 / 100 :: real] 0
         (searchsorted [1 / 100, 5 / 100, 10 / 100, 15 / 100, 30 / 100] (2 / 10))
       = [1 / 100, 5 / 100, 10 / 100, 15 / 100]"
  using too_few_points_raise [of "Some ''HK''" "''slit''" "''ads''" "''HK''" sample_isotherm None
      nitrogen_props sample_env "Inl ''Carbon(HK)''" carbon_props "[1, 2, 4, 4, 5]"
      "[1 / 100, 5 / 100, 10 / 100, 15 / 100, 30 / 100]"
      "Some (Some (4 / 100), Some (12 / 100))" 1 3]
  by (simp add: driver_eval kernel_eval)

section \<open>The shape of the result\<close>

lemma solve_widths_length:
  assumes "solve_widths ms use_cy pressure loading potential bound = Inr raw"
      and "length pressure = length loading"
  shows "length raw = length pressure"
proof (cases use_cy)
  case True
  with assms(1) have "solve_hk_cy ms pressure loading potential bound = Inr raw"
    by (simp add: solve_widths_def)
  then have "length raw = min (length pressure) (length loading)"
    by (rule solve_hk_cy_length)
  then show ?thesis
    using assms(2) by simp
next
  case False
  with assms(1) show ?thesis
    by (auto simp: solve_widths_def solve_hk_length)
qed

lemma pore_widths_of_length:
  assumes "pore_widths_of ms pm k use_cy pore_geometry s pressure loading = Inr (Some w)"
      and "length pressure = length loading"
  shows "length w = length pressure"
proof -
  have *: "length w = length pressure"
    if "bindE (pm k g s) (\<lambda>potential.
        bindE (solve_widths ms use_cy pressure loading potential b) (\<lambda>raw.
          Inr (Some (map f raw)))) = Inr (Some w)" for g b f
  proof -
    from that obtain potential raw
      where "solve_widths ms use_cy pressure loading potential b = Inr raw"
        and "(Inr (Some (map f raw)) :: py_error + real list option) = Inr (Some w)"
      by (elim bindE_InrE) (rule that; assumption)
    then have "length raw = length pressure" and "w = map f raw"
      using solve_widths_length[of ms use_cy pressure loading potential b raw] assms(2)
      by simp_all
    then show ?thesis by simp
  qed
  consider (slit) "pore_geometry = ''slit''"
    | (cylinder) "pore_geometry \<noteq> ''slit''" "pore_geometry = ''cylinder''"
    | (sphere) "pore_geometry \<noteq> ''slit''" "pore_geometry \<noteq> ''cylinder''"
        "pore_geometry = ''sphere''"
    | (other) "pore_geometry \<noteq> ''slit''" "pore_geometry \<noteq> ''cylinder''"
        "pore_geometry \<noteq> ''sphere''"
    by blast
  then show ?thesis
  proof cases
    case slit
    with assms(1) have "bindE (pm k ''slit'' s) (\<lambda>potential.
        bindE (solve_widths ms use_cy pressure loading potential (2 * d_eff s)) (\<lambda>raw.
          Inr (Some (map (\<lambda>w. w - d_mat s) raw)))) = Inr (Some w)"
      by (simp add: pore_widths_of_def)
    then show ?thesis by (rule *)
  next
    case cylinder
    with assms(1) have "bindE (pm k ''cylinder'' s) (\<lambda>potential.
        bindE (solve_widths ms use_cy pressure loading potential (d_eff s)) (\<lambda>raw.
          Inr (Some (map (\<lambda>w. 2 * w - d_mat s) raw)))) = Inr (Some w)"
      by (simp add: pore_widths_of_def)
    then show ?thesis by (rule *)
  next
    case sphere
    with assms(1) have "bindE (pm k ''sphere'' s) (\<lambda>potential.
        bindE (solve_widths ms use_cy pressure loading potential (d_eff s)) (\<lambda>raw.
          Inr (Some (map (\<lambda>w. 2 * w - d_mat s) raw)))) = Inr (Some w)"
      by (simp add: pore_widths_of_def)
    then show ?thesis by (rule *)
  next
    case other
    with assms(1) show ?thesis
      unfolding pore_widths_of_def by simp
  qed
qed

lemma np_diff_length: "length (np_diff xs) = length xs - 1"
  by (simp add: np_diff_def)

lemma np_divide_same_length:
  assumes "length xs = length ys" and "np_divide xs ys = Inr r"
  shows "length r = length ys"
proof -
  from assms have "r = map (\<lambda>(x, y). np_div x y) (zip xs ys)"
    by (simp add: np_divide_def)
  then show ?thesis
    using assms(1) by simp
qed

lemma calc_pore_distribution_lengths:
  assumes "calc_pore_distribution ads (Some w) loading = Inr (a, d, v)"
      and "length w = length loading"
  shows "length a = length w - 1 \<and> length d = length w - 1 \<and> length v = length w"
proof -
  from assms(1) obtain liquid_density adsorbate_molar_mass where
    r: "(let avg_pore_widths = map (\<lambda>(a, b). (a + b) / 2) (zip (butlast w) (tl w));
               volume_adsorbed =
                 map (\<lambda>n. np_div (np_div (Fin (n * adsorbate_molar_mass)) (Fin liquid_density))
                            (Fin 1000)) loading
           in bindE (np_divide (np_diff volume_adsorbed) (np_diff (map Fin w))) (\<lambda>pore_dist.
                Inr (avg_pore_widths, pore_dist, volume_adsorbed))) = Inr (a, d, v)"
    unfolding calc_pore_distribution_def option.case
    by (elim bindE_InrE) (rule that; assumption)
  let ?vol = "map (\<lambda>n. np_div (np_div (Fin (n * adsorbate_molar_mass)) (Fin liquid_density))
                            (Fin 1000)) loading"
  from r obtain pore_dist where
    pd: "np_divide (np_diff ?vol) (np_diff (map Fin w)) = Inr pore_dist"
    and res: "(Inr (map (\<lambda>(a, b). (a + b) / 2) (zip (butlast w) (tl w)), pore_dist, ?vol)
        :: py_error + real list \<times> npfloat list \<times> npfloat list) = Inr (a, d, v)"
    unfolding Let_def by (elim bindE_InrE) (rule that; assumption)
  from res have eq: "a = map (\<lambda>(a, b). (a + b) / 2) (zip (butlast w) (tl w))"
      "d = pore_dist" "v = ?vol"
    by simp_all
  have "length (np_diff ?vol) = length (np_diff (map Fin w))"
    using assms(2) by (simp add: np_diff_length)
  then have "length pore_dist = length (np_diff (map Fin w))"
    using pd by (rule np_divide_same_length)
  then show ?thesis
    using eq assms(2) by (simp add: np_diff_length)
qed

lemma calc_pore_distribution_Some:
  "calc_pore_distribution ads widths loading = Inr t \<Longrightarrow> \<exists>w. widths = Some w"
  by (cases widths) (simp_all add: calc_pore_distribution_def bindE_def split: sum.splits)

lemma psd_horvath_kawazoe_lengths:
  assumes "psd_horvath_kawazoe ms pm c pressure loading temperature pore_geometry
        adsorbate_properties material_properties use_cy = Inr (w, d, v)"
  shows "length w = length d \<and> length v = length d"
proof -
  from assms obtain t where
    r: "(case t of (avg_pore_widths, pore_dist, volume_adsorbed) \<Rightarrow>
         let out = map in_band pore_dist in
         bindE (np_mask avg_pore_widths out) (\<lambda>r1.
         bindE (np_mask pore_dist out) (\<lambda>r2.
         bindE (np_mask (tl volume_adsorbed) out) (\<lambda>r3.
           Inr (r1, r2, r3))))) = Inr (w, d, v)"
    unfolding psd_horvath_kawazoe_def
    by (elim bindE_InrE) (rule that; assumption)
  obtain avg pore_dist vol where t3: "t = (avg, pore_dist, vol)"
    by (cases t) auto
  from r obtain m1: "np_mask avg (map in_band pore_dist) = Inr w"
    and m2: "np_mask pore_dist (map in_band pore_dist) = Inr d"
    and m3: "np_mask (tl vol) (map in_band pore_dist) = Inr v"
    unfolding t3 by (auto simp: Let_def elim!: bindE_InrE)
  from m1 m2 m3 have la: "length avg = length pore_dist" and lv: "length (tl vol) = length pore_dist"
    and w: "w = map fst (filter snd (zip avg (map in_band pore_dist)))"
    and d: "d = filter in_band pore_dist"
    and v: "v = map fst (filter snd (zip (tl vol) (map in_band pore_dist)))"
    by (simp_all add: np_mask_Inr mask_by_predicate)
  have "length w = length d"
    unfolding w d using la by (rule mask_length)
  moreover have "length v = length d"
    unfolding v d using lv by (rule mask_length)
  ultimately show ?thesis ..
qed

lemma psd_horvath_kawazoe_ry_lengths:
  assumes "psd_horvath_kawazoe_ry ms pm c pressure loading temperature pore_geometry
        adsorbate_properties material_properties use_cy = Inr (w, d, v)"
      and "length pressure = length loading"
  shows "length w = length d \<and> length v = length d"
proof -
  from assms(1) obtain s widths t where
      pw: "pore_widths_of ms pm RY use_cy pore_geometry s pressure loading = Inr widths"
    and t: "calc_pore_distribution adsorbate_properties widths loading = Inr t"
    and r: "(case t of (avg_pore_widths, pore_dist, volume_adsorbed) \<Rightarrow>
         (Inr (avg_pore_widths, pore_dist, tl volume_adsorbed)
            :: py_error + real list \<times> npfloat list \<times> npfloat list)) = Inr (w, d, v)"
    unfolding psd_horvath_kawazoe_ry_def
    by (elim bindE_InrE) (rule that; assumption)
  obtain avg pore_dist vol where t3: "t = (avg, pore_dist, vol)"
    by (cases t) auto
  from r have eq: "w = avg" "d = pore_dist" "v = tl vol"
    unfolding t3 by simp_all
  from t obtain ws where ws: "widths = Some ws"
    using calc_pore_distribution_Some by blast
  have "length ws = length loading"
    using pore_widths_of_length[OF pw[unfolded ws] assms(2)] assms(2) by simp
  with t[unfolded ws t3] have "length avg = length ws - 1 \<and> length pore_dist = length ws - 1
      \<and> length vol = length ws"
    by (rule calc_pore_distribution_lengths)
  then show ?thesis
    using eq by simp
qed

lemma dispatch_kernel_lengths:
  assumes "dispatch_kernel e model pressure loading temperature pore_geometry ads mat = Inr (w, d, v)"
      and "length pressure = length loading"
  shows "length w = length d \<and> length v = length d"
proof (cases "model \<in> set [''HK'', ''HK-CY'']")
  case True
  with assms(1) show ?thesis
    unfolding dispatch_kernel_def
    by (simp only: if_True) (rule psd_horvath_kawazoe_lengths)
next
  case False
  show ?thesis
  proof (cases "model \<in> set [''RY'', ''RY-CY'']")
    case True
    with False assms(1)
    have "psd_horvath_kawazoe_ry (minimize_scalar e) (potentials e) (phys e) pressure loading
          temperature pore_geometry ads mat (if model = ''RY'' then False else True) = Inr (w, d, v)"
      unfolding dispatch_kernel_def by (simp only: if_True if_False)
    then show ?thesis
      using assms(2) by (rule psd_horvath_kawazoe_ry_lengths)
  next
    case F2: False
    with False assms(1) show ?thesis
      unfolding dispatch_kernel_def by (simp only: if_False) simp
  qed
qed

lemma pressure_window_lengths:
  assumes "pressure_window p_limits pressure loading = Inr (pw, lw)"
      and "length pressure = length loading"
  shows "length pw = length lw"
  using assms
  by (auto simp: pressure_window_def slice_def split: prod.splits if_splits)

lemma branch_data_lengths:
  assumes "branch_data isoth branch = Inr (loading, pressure)"
      and "\<forall>l. iso_loading isoth branch = Some l \<longrightarrow> length l = length (iso_pressure isoth branch)"
  shows "length pressure = length loading"
  using assms
  by (auto simp: branch_data_def Let_def split: option.splits if_splits)

text \<open>
  C6. Whenever \<open>psd_microporous\<close> returns, which it only does for a valid model, geometry
  and branch, the three sequences of its result (\<open>pore_widths\<close>, \<open>pore_distribution\<close>,
  \<open>pore_volume_cumulative\<close>) have the same length, provided the isotherm gives a loading
  and a pressure series of the same length for the branch, as the collaborator's contract
  says.
\<close>

theorem psd_microporous_equal_lengths:
  assumes aligned:
        "\<forall>l. iso_loading isoth branch = Some l \<longrightarrow> length l = length (iso_pressure isoth branch)"
      and ret: "psd_microporous e isoth psd_model pore_geometry branch material_model
                  adsorbate_model p_limits = Inr r"
  shows "length (pore_widths r) = length (pore_distribution r)
       \<and> length (pore_volume_cumulative r) = length (pore_distribution r)
       \<and> psd_model \<in> Some ` set MICRO_PSD_MODELS
       \<and> pore_geometry \<in> set PORE_GEOMETRIES
       \<and> branch \<in> {''ads'', ''des''}"
proof -
  have valid: "psd_model \<in> Some ` set MICRO_PSD_MODELS \<and> pore_geometry \<in> set PORE_GEOMETRIES
       \<and> branch \<in> {''ads'', ''des''}"
  proof (rule ccontr)
    assume "\<not> (psd_model \<in> Some ` set MICRO_PSD_MODELS \<and> pore_geometry \<in> set PORE_GEOMETRIES
       \<and> branch \<in> {''ads'', ''des''})"
    then have "psd_model \<notin> Some ` set MICRO_PSD_MODELS \<or> pore_geometry \<notin> set PORE_GEOMETRIES
         \<or> branch \<notin> {''ads'', ''des''}"
      by blast
    then have "\<exists>err. parameter_checks psd_model pore_geometry branch = Inl err"
      by (rule parameter_checks_invalid)
    then obtain err where "parameter_checks psd_model pore_geometry branch = Inl err" ..
    then have "psd_microporous e isoth psd_model pore_geometry branch material_model
                  adsorbate_model p_limits = Inl err"
      by (rule psd_microporous_checks_fail)
    with ret show False by simp
  qed
  from ret obtain model ads mat bd win k where
      bd: "branch_data isoth branch = Inr bd"
    and win: "(case bd of (loading, pressure) \<Rightarrow>
        bindE (pressure_window p_limits pressure loading) (\<lambda>(pressure, loading).
        bindE (dispatch_kernel e model pressure loading (iso_temperature isoth) pore_geometry
              ads mat)
       (\<lambda>(widths, pore_dist, pore_vol_cum).
         Inr \<lparr>pore_widths = widths, pore_distribution = pore_dist,
              pore_volume_cumulative = pore_vol_cum\<rparr>))) = Inr r"
    unfolding psd_microporous_def
    by (elim bindE_InrE) (rule that; assumption)
  obtain loading pressure where bd2: "bd = (loading, pressure)"
    by (cases bd) auto
  from win obtain wn where
      wn: "pressure_window p_limits pressure loading = Inr wn"
    and k: "(case wn of (pressure, loading) \<Rightarrow>
        bindE (dispatch_kernel e model pressure loading (iso_temperature isoth) pore_geometry
              ads mat)
       (\<lambda>(widths, pore_dist, pore_vol_cum).
         Inr \<lparr>pore_widths = widths, pore_distribution = pore_dist,
              pore_volume_cumulative = pore_vol_cum\<rparr>)) = Inr r"
    unfolding bd2 prod.case by (elim bindE_InrE) (rule that; assumption)
  obtain pw lw where wn2: "wn = (pw, lw)"
    by (cases wn) auto
  from k obtain t where
      t: "dispatch_kernel e model pw lw (iso_temperature isoth) pore_geometry ads mat = Inr t"
    and res: "(case t of (widths, pore_dist, pore_vol_cum) \<Rightarrow>
         (Inr \<lparr>pore_widths = widths, pore_distribution = pore_dist,
              pore_volume_cumulative = pore_vol_cum\<rparr> :: py_error + psd_result)) = Inr r"
    unfolding wn2 prod.case by (elim bindE_InrE) (rule that; assumption)
  obtain w d v where t3: "t = (w, d, v)"
    by (cases t) auto
  have "length pressure = length loading"
    using bd[unfolded bd2] aligned by (rule branch_data_lengths)
  with wn[unfolded wn2] have "length pw = length lw"
    by (rule pressure_window_lengths)
  with t[unfolded t3] have "length w = length d \<and> length v = length d"
    by (rule dispatch_kernel_lengths)
  moreover from res have "r = \<lparr>pore_widths = w, pore_distribution = d,
              pore_volume_cumulative = v\<rparr>"
    unfolding t3 by simp
  ultimately show ?thesis using valid by simp
qed

text \<open>
  Two calls on the sample isotherm: the HK kernel on the adsorption branch returns two
  points, the corrected RY kernel on the desorption branch three.
\<close>

theorem psd_microporous_equal_lengths_witness:
  "iso_loading sample_isotherm ''ads'' = Some [1, 2, 4, 4, 5]
   \<and> length [1, 2, 4, 4, 5 :: real] = length (iso_pressure sample_isotherm ''ads'')
   \<and> psd_microporous sample_env sample_isotherm (Some ''HK'') ''slit'' ''ads'' (Inl ''Carbon(HK)'')
         None None
       = Inr \<lparr>pore_widths = [3013 / 10000, 49 / 160],
              pore_distribution = [Fin (175 / 12), Fin (28 / 3)],
              pore_volume_cumulative = [Fin (7 / 100), Fin (7 / 50)]\<rparr>
   \<and> psd_microporous sample_env sample_isotherm (Some ''RY-CY'') ''sphere'' ''des''
         (Inl ''Carbon(HK)'') None None
       = Inr \<lparr>pore_widths = [1513 / 5000, 5 / 16, 31 / 100],
              pore_distribution = [Fin (175 / 24), Fin (14 / 3), Fin (- (7 / 8))],
              pore_volume_cumulative = [Fin (7 / 100), Fin (7 / 50), Fin (63 / 400)]\<rparr>
   \<and> length [3013 / 10000, 49 / 160 :: real] = length [Fin (175 / 12), Fin (28 / 3)]
   \<and> length [Fin (7 / 100), Fin (7 / 50)] = length [Fin (175 / 12), Fin (28 / 3)]"
  using psd_microporous_equal_lengths [of sample_isotherm "''ads''" sample_env "Some ''HK''"
      "''slit''" "Inl ''Carbon(HK)''" None None
      "\<lparr>pore_widths = [3013 / 10000, 49 / 160],
        pore_distribution = [Fin (175 / 12), Fin (28 / 3)],
        pore_volume_cumulative = [Fin (7 / 100), Fin (7 / 50)]\<rparr>"]
    psd_microporous_equal_lengths [of sample_isotherm "''des''" sample_env "Some ''RY-CY''"
      "''sphere''" "Inl ''Carbon(HK)''" None None
      "\<lparr>pore_widths = [1513 / 5000, 5 / 16, 31 / 100],
        pore_distribution = [Fin (175 / 24), Fin (14 / 3), Fin (- (7 / 8))],
        pore_volume_cumulative = [Fin (7 / 100), Fin (7 / 50), Fin (63 / 400)]\<rparr>"]
  by (simp add: driver_eval kernel_eval)

section \<open>The desorption branch\<close>

lemma sorted_slice: "sorted xs \<Longrightarrow> sorted (slice xs i j)"
  unfolding slice_def by (intro sorted_wrt_drop sorted_wrt_take)

lemma pressure_window_slices:
  assumes "pressure_window p_limits pressure loading = Inr (pw, lw)"
  shows "\<exists>i j. pw = slice pressure i j \<and> lw = slice loading i j \<and> 3 \<le> length pw"
proof -
  obtain minimum maximum where w: "window_indices p_limits pressure = (minimum, maximum)"
    by (cases "window_indices p_limits pressure") auto
  from assms have n: "\<not> int maximum - int minimum < 3"
    and eq: "pw = slice pressure minimum maximum" "lw = slice loading minimum maximum"
    by (simp_all add: pressure_window_def w split: if_splits)
  have "maximum \<le> length pressure"
    using w by (rule window_indices_le)
  then have "length (slice pressure minimum maximum) = maximum - minimum"
    by (rule slice_length)
  with n eq show ?thesis
    by (intro exI[of _ minimum] exI[of _ maximum]) auto
qed

text \<open>
  C7 (as amended). On the branch \<open>des\<close> \<open>psd_microporous\<close> reverses both the loading and
  the pressure before the window is applied, on the branch \<open>ads\<close> it takes them as they
  are: a call on the desorption branch is the same as a call on the adsorption branch of
  an isotherm that holds the reversed desorption data. When the desorption pressures are
  stored from the highest down, the kernel (and the solver in it) receives a slice of the
  reversed series, which is in increasing order of pressure.
\<close>

theorem desorption_branch_is_reversed:
  "branch_data isoth ''des''
     = (case iso_loading isoth ''des'' of
          None \<Rightarrow> Inl (ParameterError
                    [''The isotherm does not have the required branch for this calculation''])
        | Some l \<Rightarrow> Inr (rev l, rev (iso_pressure isoth ''des'')))
   \<and> branch_data isoth ''ads''
     = (case iso_loading isoth ''ads'' of
          None \<Rightarrow> Inl (ParameterError
                    [''The isotherm does not have the required branch for this calculation''])
        | Some l \<Rightarrow> Inr (l, iso_pressure isoth ''ads''))
   \<and> psd_microporous e isoth psd_model pore_geometry ''des'' material_model adsorbate_model p_limits
     = psd_microporous e
         (isoth\<lparr>iso_loading := \<lambda>b. map_option rev (iso_loading isoth ''des''),
                iso_pressure := \<lambda>b. rev (iso_pressure isoth ''des'')\<rparr>)
         psd_model pore_geometry ''ads'' material_model adsorbate_model p_limits
   \<and> (\<forall>model ads mat l pw lw.
         parameter_checks psd_model pore_geometry ''des'' = Inr model
       \<and> adsorbate_model_of isoth adsorbate_model = Inr ads
       \<and> get_hk_model e material_model = Inr mat
       \<and> iso_loading isoth ''des'' = Some l
       \<and> pressure_window p_limits (rev (iso_pressure isoth ''des'')) (rev l) = Inr (pw, lw)
       \<and> sorted (rev (iso_pressure isoth ''des''))
       \<longrightarrow> sorted pw
         \<and> (\<exists>i j. pw = slice (rev (iso_pressure isoth ''des'')) i j \<and> lw = slice (rev l) i j)
         \<and> psd_microporous e isoth psd_model pore_geometry ''des'' material_model adsorbate_model
             p_limits
           = bindE (dispatch_kernel e model pw lw (iso_temperature isoth) pore_geometry ads mat)
               (\<lambda>(widths, pore_dist, pore_vol_cum).
                  Inr \<lparr>pore_widths = widths, pore_distribution = pore_dist,
                       pore_volume_cumulative = pore_vol_cum\<rparr>))"
proof (intro conjI allI impI)
  show "branch_data isoth ''des''
     = (case iso_loading isoth ''des'' of
          None \<Rightarrow> Inl (ParameterError
                    [''The isotherm does not have the required branch for this calculation''])
        | Some l \<Rightarrow> Inr (rev l, rev (iso_pressure isoth ''des'')))"
    by (simp add: branch_data_def split: option.splits)
  show "branch_data isoth ''ads''
     = (case iso_loading isoth ''ads'' of
          None \<Rightarrow> Inl (ParameterError
                    [''The isotherm does not have the required branch for this calculation''])
        | Some l \<Rightarrow> Inr (l, iso_pressure isoth ''ads''))"
    by (simp add: branch_data_def split: option.splits)
  let ?iso' = "isoth\<lparr>iso_loading := \<lambda>b. map_option rev (iso_loading isoth ''des''),
                iso_pressure := \<lambda>b. rev (iso_pressure isoth ''des'')\<rparr>"
  have pc: "parameter_checks psd_model pore_geometry ''des''
      = parameter_checks psd_model pore_geometry ''ads''"
    by (simp add: parameter_checks_def split: option.splits)
  have am: "adsorbate_model_of ?iso' adsorbate_model = adsorbate_model_of isoth adsorbate_model"
    by (simp add: adsorbate_model_of_def split: option.splits)
  have bd: "branch_data ?iso' ''ads'' = branch_data isoth ''des''"
    by (simp add: branch_data_def split: option.splits)
  show "psd_microporous e isoth psd_model pore_geometry ''des'' material_model adsorbate_model
          p_limits
     = psd_microporous e ?iso' psd_model pore_geometry ''ads'' material_model adsorbate_model
          p_limits"
    by (simp add: psd_microporous_def pc am bd)
next
  fix model ads mat l pw lw
  assume a: "parameter_checks psd_model pore_geometry ''des'' = Inr model
       \<and> adsorbate_model_of isoth adsorbate_model = Inr ads
       \<and> get_hk_model e material_model = Inr mat
       \<and> iso_loading isoth ''des'' = Some l
       \<and> pressure_window p_limits (rev (iso_pressure isoth ''des'')) (rev l) = Inr (pw, lw)
       \<and> sorted (rev (iso_pressure isoth ''des''))"
  then obtain i j where ij: "pw = slice (rev (iso_pressure isoth ''des'')) i j"
      "lw = slice (rev l) i j"
    using pressure_window_slices by blast
  with a show "sorted pw"
    by (simp add: sorted_slice)
  from ij show "\<exists>i j. pw = slice (rev (iso_pressure isoth ''des'')) i j \<and> lw = slice (rev l) i j"
    by blast
  have "branch_data isoth ''des'' = Inr (rev l, rev (iso_pressure isoth ''des''))"
    using a by (simp add: branch_data_def)
  with a show "psd_microporous e isoth psd_model pore_geometry ''des'' material_model
             adsorbate_model p_limits
           = bindE (dispatch_kernel e model pw lw (iso_temperature isoth) pore_geometry ads mat)
               (\<lambda>(widths, pore_dist, pore_vol_cum).
                  Inr \<lparr>pore_widths = widths, pore_distribution = pore_dist,
                       pore_volume_cumulative = pore_vol_cum\<rparr>)"
    by (simp add: psd_microporous_def bindE_def)
qed

theorem desorption_branch_is_reversed_witness:
  "iso_loading sample_isotherm ''des'' = Some [5, 9 / 2, 4, 2, 1]
   \<and> sorted (rev (iso_pressure sample_isotherm ''des''))
   \<and> branch_data sample_isotherm ''des''
       = Inr ([1, 2, 4, 9 / 2, 5], [1 / 100, 5 / 100, 10 / 100, 15 / 100, 30 / 100])
   \<and> branch_data sample_isotherm ''ads''
       = Inr ([1, 2, 4, 4, 5], [1 / 100, 5 / 100, 10 / 100, 15 / 100, 30 / 100])
   \<and> pressure_window None [1 / 100, 5 / 100, 10 / 100, 15 / 100, 30 / 100] [1, 2, 4, 9 / 2, 5]
       = Inr ([1 / 100, 5 / 100, 10 / 100, 15 / 100], [1, 2, 4, 9 / 2])
   \<and> sorted [1 / 100, 5 / 100, 10 / 100, 15 / 100 :: real]
   \<and> psd_microporous sample_env sample_isotherm (Some ''RY-CY'') ''sphere'' ''des''
         (Inl ''Carbon(HK)'') None None
       = Inr \<lparr>pore_widths = [1513 / 5000, 5 / 16, 31 / 100],
              pore_distribution = [Fin (175 / 24), Fin (14 / 3), Fin (- (7 / 8))],
              pore_volume_cumulative = [Fin (7 / 100), Fin (7 / 50), Fin (63 / 400)]\<rparr>"
  using desorption_branch_is_reversed [of sample_isotherm sample_env "Some ''RY-CY''" "''sphere''"
      "Inl ''Carbon(HK)''" None None]
  by (simp add: driver_eval kernel_eval)

text \<open>
  The claim as it was stated fails when the desorption data is stored from the lowest
  pressure up: the reversal is unconditional, so the series is then in decreasing order.
  The search for the upper limit 0.2 in it gives 5, the window keeps all five points, and
  the kernel receives the pressures from 0.3 down to 0.01.
\<close>

theorem desorption_stored_rising_counterexample:
  "iso_pressure sample_isotherm_rising ''des'' = [1 / 100, 5 / 100, 10 / 100, 15 / 100, 30 / 100]
   \<and> iso_loading sample_isotherm_rising ''des'' = Some [1, 2, 4, 9 / 2, 5]
   \<and> branch_data sample_isotherm_rising ''des''
       = Inr ([5, 9 / 2, 4, 2, 1], [30 / 100, 15 / 100, 10 / 100, 5 / 100, 1 / 100])
   \<and> searchsorted [30 / 100, 15 / 100, 10 / 100, 5 / 100, 1 / 100] (2 / 10) = 5
   \<and> pressure_window None [30 / 100, 15 / 100, 10 / 100, 5 / 100, 1 / 100] [5, 9 / 2, 4, 2, 1]
       = Inr ([30 / 100, 15 / 100, 10 / 100, 5 / 100, 1 / 100], [5, 9 / 2, 4, 2, 1])
   \<and> \<not> sorted [30 / 100, 15 / 100, 10 / 100, 5 / 100, 1 / 100 :: real]
   \<and> psd_microporous sample_env sample_isotherm_rising (Some ''RY'') ''slit'' ''des''
         (Inr carbon_props) (Some nitrogen_props) None
       = bindE (dispatch_kernel sample_env ''RY''
                  [30 / 100, 15 / 100, 10 / 100, 5 / 100, 1 / 100] [5, 9 / 2, 4, 2, 1]
                  77 ''slit'' nitrogen_props carbon_props)
           (\<lambda>(widths, pore_dist, pore_vol_cum).
              Inr \<lparr>pore_widths = widths, pore_distribution = pore_dist,
                   pore_volume_cumulative = pore_vol_cum\<rparr>)"
proof -
  have b: "branch_data sample_isotherm_rising ''des''
       = Inr ([5, 9 / 2, 4, 2, 1], [30 / 100, 15 / 100, 10 / 100, 5 / 100, 1 / 100])"
    by (simp add: branch_data_def sample_isotherm_rising_def sample_isotherm_def)
  have s: "searchsorted [30 / 100, 15 / 100, 10 / 100, 5 / 100, 1 / 100] (2 / 10) = 5"
    by (simp add: searchsorted_def bsearch_left.simps)
  have w: "pressure_window None [30 / 100, 15 / 100, 10 / 100, 5 / 100, 1 / 100]
         [5, 9 / 2, 4, 2, 1]
       = Inr ([30 / 100, 15 / 100, 10 / 100, 5 / 100, 1 / 100], [5, 9 / 2, 4, 2, 1])"
    using s by (simp add: pressure_window_def window_indices_def slice_def)
  have t: "iso_temperature sample_isotherm_rising = 77"
    by (simp add: sample_isotherm_rising_def sample_isotherm_def)
  have m: "psd_microporous sample_env sample_isotherm_rising (Some ''RY'') ''slit'' ''des''
         (Inr carbon_props) (Some nitrogen_props) None
       = bindE (dispatch_kernel sample_env ''RY''
                  [30 / 100, 15 / 100, 10 / 100, 5 / 100, 1 / 100] [5, 9 / 2, 4, 2, 1]
                  77 ''slit'' nitrogen_props carbon_props)
           (\<lambda>(widths, pore_dist, pore_vol_cum).
              Inr \<lparr>pore_widths = widths, pore_distribution = pore_dist,
                   pore_volume_cumulative = pore_vol_cum\<rparr>)"
    using b w t
    by (simp add: psd_microporous_def parameter_checks_def MICRO_PSD_MODELS_def
        PORE_GEOMETRIES_def adsorbate_model_of_def sample_env_def bindE_def)
  show ?thesis
    using b s w m by (simp add: sample_isotherm_rising_def sample_isotherm_def)
qed

section \<open>Properties of the IAST checks\<close>

text \<open>
  C9. \<open>iast\<close> raises \<open>ParameterError\<close> when given fewer than 2 component isotherms or when
  the partial-pressure vector length differs from the component count; \<open>reverse_iast\<close>
  raises \<open>ParameterError\<close> under the same two conditions and also when the target adsorbed
  mole fractions do not sum to 1 within the tolerance. (Both functions are modelled from
  the specification.)
\<close>

theorem iast_checks:
  "(length isotherms < 2 \<or> length partial_pressures \<noteq> length isotherms \<longrightarrow>
      (\<exists>args. iast solve isotherms partial_pressures = Inl (ParameterError args)))
   \<and> (length isotherms < 2 \<or> length adsorbed_mole_fractions \<noteq> length isotherms
        \<or> tol < \<bar>sum_list adsorbed_mole_fractions - 1\<bar> \<longrightarrow>
      (\<exists>args. reverse_iast tol rsolve isotherms adsorbed_mole_fractions total_pressure
                 = Inl (ParameterError args)))"
  by (auto simp: iast_def reverse_iast_def)


text \<open>The five calls of the test \<open>test_iast_checks\<close> that concern the two functions.\<close>

theorem iast_checks_witness:
  "iast (\<lambda>cs ps. Inr ps) [''CH4''] [1 / 10] = Inl (ParameterError [])
   \<and> iast (\<lambda>cs ps. Inr ps) [''CH4'', ''C2H6''] [1 / 10] = Inl (ParameterError [])
   \<and> reverse_iast (1 / 10 ^ 8) (\<lambda>cs xs p. Inr (xs, xs)) [''CH4''] [1 / 10] 2
       = Inl (ParameterError [])
   \<and> reverse_iast (1 / 10 ^ 8) (\<lambda>cs xs p. Inr (xs, xs)) [''CH4'', ''C2H6''] [1 / 10] 2
       = Inl (ParameterError [])
   \<and> reverse_iast (1 / 10 ^ 8) (\<lambda>cs xs p. Inr (xs, xs)) [''CH4'', ''C2H6''] [1 / 10, 4 / 10] 2
       = Inl (ParameterError [])"
  using iast_checks [of "[''CH4'']" "[1 / 10]" "\<lambda>cs ps. Inr ps" "[1 / 10]" "1 / 10 ^ 8"
      "\<lambda>cs xs p. Inr (xs, xs)" 2]
    iast_checks [of "[''CH4'', ''C2H6'']" "[1 / 10]" "\<lambda>cs ps. Inr ps" "[1 / 10]" "1 / 10 ^ 8"
      "\<lambda>cs xs p. Inr (xs, xs)" 2]
    iast_checks [of "[''CH4'', ''C2H6'']" "[1 / 10, 4 / 10]" "\<lambda>cs ps. Inr ps" "[1 / 10, 4 / 10]"
      "1 / 10 ^ 8" "\<lambda>cs xs p. Inr (xs, xs)" 2]
  by (simp add: iast_def reverse_iast_def)

end
